theory Spec2Isabelle
  imports Complex_Main
begin

section \<open>Enumerations and values\<close>

text \<open>
  The Prisma enums of the backend. \<open>ProjectRole\<close> has its own two members
  (\<open>ProjectRole.MEMBER\<close>, \<open>ProjectRole.VIEWER\<close>); they are kept apart from the
  global \<open>UserRole\<close> members of the same spelling.
\<close>

datatype TaskStatus = TODO | IN_PROGRESS | DONE

datatype UserRole = ADMIN | MEMBER | VIEWER

datatype ProjectRole = ProjectRole_MEMBER | ProjectRole_VIEWER

datatype AuditAction = CREATE | UPDATE | DELETE

fun TaskStatus_name :: "TaskStatus \<Rightarrow> string" where
  "TaskStatus_name TODO = ''TODO''"
| "TaskStatus_name IN_PROGRESS = ''IN_PROGRESS''"
| "TaskStatus_name DONE = ''DONE''"

fun ProjectRole_name :: "ProjectRole \<Rightarrow> string" where
  "ProjectRole_name ProjectRole_MEMBER = ''MEMBER''"
| "ProjectRole_name ProjectRole_VIEWER = ''VIEWER''"

text \<open>
  JavaScript values as they occur in patches, rows and audit details. A \<open>Date\<close> is
  its number of milliseconds since the epoch.
\<close>

datatype json =
    JUndefined
  | JNull
  | JString string
  | JDate int
  | JObject "(string \<times> json) list"

text \<open>
  \<open>String(v)\<close>. The text of a \<open>Date\<close> (\<open>Date.prototype.toString\<close>) has a resolution
  of one second; it is kept abstract as \<open>DateText s\<close>, the rendering of the instant cut to
  the whole second \<open>s\<close>. Every other value renders to ordinary text.
\<close>

datatype jstext = Text string | DateText int

fun js_String :: "json \<Rightarrow> jstext" where
  "js_String JUndefined = Text ''undefined''"
| "js_String JNull = Text ''null''"
| "js_String (JString s) = Text s"
| "js_String (JDate ms) = DateText (ms div 1000)"
| "js_String (JObject kvs) = Text ''[object Object]''"

text \<open>
  A date-valued property of an object handed to a service is a \<open>Date\<close>, which is the
  declared type and what the service assigns itself, or a string, which is what a request
  body carries: the route schemas declare \<open>dueDate\<close> as \<open>z.string()\<close>, and the body
  reaches the service as it was sent. \<open>String\<close> of a string is the string itself. The
  text of a \<open>Date\<close> is not of the form \<open>Date.prototype.toISOString\<close> gives and the
  ORM reads, so a date string that can be stored never has the text of a \<open>Date\<close>.
\<close>

datatype dateval = DateObj int | DateStr string

fun json_dateval :: "dateval \<Rightarrow> json" where
  "json_dateval (DateObj ms) = JDate ms"
| "json_dateval (DateStr s) = JString s"

definition json_opt :: "('a \<Rightarrow> json) \<Rightarrow> 'a option \<Rightarrow> json" where
  \<comment> \<open>a nullable column or patch value: \<open>null\<close> or the value\<close>
  "json_opt f v = (case v of None \<Rightarrow> JNull | Some x \<Rightarrow> f x)"

definition json_field :: "('a \<Rightarrow> json) \<Rightarrow> 'a option \<Rightarrow> json" where
  \<comment> \<open>an optional property: \<open>undefined\<close> when absent\<close>
  "json_field f v = (case v of None \<Rightarrow> JUndefined | Some x \<Rightarrow> f x)"

definition json_status :: "TaskStatus \<Rightarrow> json" where
  "json_status s = JString (TaskStatus_name s)"

definition json_role :: "ProjectRole \<Rightarrow> json" where
  "json_role r = JString (ProjectRole_name r)"

section \<open>Errors\<close>

text \<open>
  \<open>AppError\<close> with its message, HTTP status, optional error code and optional metadata.
  \<open>StoreAbort\<close> is the store aborting a statement or the commit of a transaction;
  \<open>RecordNotFound\<close> is the ORM's error for an update or delete of a row that is not there,
  \<open>InvalidData\<close> its error for data it refuses to write (a date string it cannot read).
\<close>

datatype error =
    AppError (message: string) (statusCode: nat) (code: "string option")
      (metadata: "(string \<times> json) list option")
  | StoreAbort
  | RecordNotFound
  | InvalidData

definition ErrorCodes_PROJECT_NOT_FOUND :: string where
  "ErrorCodes_PROJECT_NOT_FOUND = ''ERR_PROJECT_001''"

definition ErrorCodes_PROJECT_MEMBER_ALREADY_EXISTS :: string where
  "ErrorCodes_PROJECT_MEMBER_ALREADY_EXISTS = ''ERR_PROJECT_003''"

definition ErrorCodes_PROJECT_MEMBER_NOT_FOUND :: string where
  "ErrorCodes_PROJECT_MEMBER_NOT_FOUND = ''ERR_PROJECT_004''"

definition ErrorCodes_TASK_NOT_FOUND :: string where
  "ErrorCodes_TASK_NOT_FOUND = ''ERR_TASK_001''"

definition ErrorCodes_TASK_VIEWER_CANNOT_BE_ASSIGNED :: string where
  "ErrorCodes_TASK_VIEWER_CANNOT_BE_ASSIGNED = ''ERR_TASK_003''"

definition ErrorCodes_TASK_ASSIGNEE_NOT_FOUND :: string where
  "ErrorCodes_TASK_ASSIGNEE_NOT_FOUND = ''ERR_TASK_004''"

definition ErrorCodes_TASK_ASSIGNEE_NOT_IN_PROJECT :: string where
  "ErrorCodes_TASK_ASSIGNEE_NOT_IN_PROJECT = ''ERR_TASK_005''"

definition ErrorCodes_USER_NOT_FOUND :: string where
  "ErrorCodes_USER_NOT_FOUND = ''ERR_USER_001''"

definition AppError_notFound :: "string \<Rightarrow> string \<Rightarrow> error" where
  "AppError_notFound msg c = AppError msg 404 (Some c) None"

definition AppError_badRequest :: "string \<Rightarrow> string \<Rightarrow> (string \<times> json) list \<Rightarrow> error" where
  "AppError_badRequest msg c md = AppError msg 400 (Some c) (Some md)"

section \<open>The store\<close>

record User =
  user_id :: string
  user_email :: string
  user_name :: string
  user_password :: string
  user_role :: UserRole

record Project =
  project_id :: string
  project_name :: string
  project_description :: "string option"

record ProjectMember =
  member_id :: string
  member_projectId :: string
  member_userId :: string
  member_projectRole :: ProjectRole

record Task =
  task_id :: string
  task_title :: string
  task_description :: "string option"
  task_status :: TaskStatus
  task_priority :: "string option"
  task_dueDate :: "int option"
  task_completedAt :: "int option"
  task_createdAt :: int
  task_updatedAt :: int
  task_projectId :: string
  task_assigneeId :: "string option"
  task_reporterId :: string

text \<open>An audit row holds what \<open>AuditRepository.create\<close> writes.\<close>

record AuditLog =
  audit_entityType :: string
  audit_entityId :: string
  audit_action :: AuditAction
  audit_actorId :: string
  audit_details :: "(string \<times> json) list"

record db =
  users :: "User list"
  projects :: "Project list"
  projectMembers :: "ProjectMember list"
  tasks :: "Task list"
  auditLogs :: "AuditLog list"

text \<open>
  What a call takes from outside the code: the clock (\<open>new Date()\<close> and the store's
  \<open>now()\<close>), the identifier the store gives the next row it inserts, the status
  column's default, which the schema file declares, and the ORM's reading of a date string:
  \<open>iso s\<close> is the instant an ISO-8601 string \<open>s\<close> denotes, and \<open>None\<close> for a string
  the ORM refuses.
\<close>

record env =
  now :: int
  newId :: string
  defaultStatus :: TaskStatus
  iso :: "string \<Rightarrow> int option"

subsection \<open>Transactions\<close>

text \<open>
  A transaction body runs statements against a working copy of the store. The store may
  abort: \<open>Some k\<close> aborts at the \<open>k\<close>-th point of the transaction, the points being its
  statements in order and then the commit; \<open>None\<close> never aborts. A body that ends in an
  error, an abort included, leaves the store as it was before the transaction.
\<close>

type_synonym txstate = "nat option \<times> db"

type_synonym 'a tx = "txstate \<Rightarrow> (error + 'a) \<times> txstate"

definition tx_return :: "'a \<Rightarrow> 'a tx" where
  "tx_return x s = (Inr x, s)"

definition tx_throw :: "error \<Rightarrow> 'a tx" where
  "tx_throw e s = (Inl e, s)"

definition tx_bind :: "'a tx \<Rightarrow> ('a \<Rightarrow> 'b tx) \<Rightarrow> 'b tx" where
  "tx_bind m f s = (case m s of (Inl e, s') \<Rightarrow> (Inl e, s') | (Inr x, s') \<Rightarrow> f x s')"

definition tx_stmt :: "(db \<Rightarrow> (error + 'a) \<times> db) \<Rightarrow> 'a tx" where
  "tx_stmt q s =
     (case fst s of
        Some 0 \<Rightarrow> (Inl StoreAbort, s)
      | Some (Suc k) \<Rightarrow> (case q (snd s) of (r, d) \<Rightarrow> (r, (Some k, d)))
      | None \<Rightarrow> (case q (snd s) of (r, d) \<Rightarrow> (r, (None, d))))"

definition transaction :: "nat option \<Rightarrow> 'a tx \<Rightarrow> db \<Rightarrow> db \<times> (error + 'a)" where
  "transaction flt body d =
     (case body (flt, d) of
        (Inl e, s') \<Rightarrow> (d, Inl e)
      | (Inr x, (Some 0, d')) \<Rightarrow> (d, Inl StoreAbort)
      | (Inr x, (_, d')) \<Rightarrow> (d', Inr x))"

subsection \<open>Queries and statements of the ORM client\<close>

definition user_findUnique :: "db \<Rightarrow> string \<Rightarrow> User option" where
  "user_findUnique d i = find (\<lambda>u. user_id u = i) (users d)"

definition project_findUnique :: "db \<Rightarrow> string \<Rightarrow> Project option" where
  "project_findUnique d i = find (\<lambda>p. project_id p = i) (projects d)"

definition task_findUnique :: "db \<Rightarrow> string \<Rightarrow> Task option" where
  "task_findUnique d i = find (\<lambda>t. task_id t = i) (tasks d)"

definition projectMember_findUnique :: "db \<Rightarrow> string \<Rightarrow> ProjectMember option" where
  "projectMember_findUnique d i = find (\<lambda>m. member_id m = i) (projectMembers d)"

definition projectMember_findUnique_projectId_userId ::
  "db \<Rightarrow> string \<Rightarrow> string \<Rightarrow> ProjectMember option" where
  "projectMember_findUnique_projectId_userId d p u =
     find (\<lambda>m. member_projectId m = p \<and> member_userId m = u) (projectMembers d)"

definition task_create :: "Task \<Rightarrow> db \<Rightarrow> (error + Task) \<times> db" where
  "task_create t d = (Inr t, d\<lparr>tasks := tasks d @ [t]\<rparr>)"

definition task_update :: "string \<Rightarrow> (Task \<Rightarrow> Task) \<Rightarrow> db \<Rightarrow> (error + Task) \<times> db" where
  "task_update i f d =
     (case task_findUnique d i of
        None \<Rightarrow> (Inl RecordNotFound, d)
      | Some t \<Rightarrow> (Inr (f t), d\<lparr>tasks := map (\<lambda>x. if task_id x = i then f x else x) (tasks d)\<rparr>))"

definition task_delete :: "string \<Rightarrow> db \<Rightarrow> (error + unit) \<times> db" where
  "task_delete i d =
     (case task_findUnique d i of
        None \<Rightarrow> (Inl RecordNotFound, d)
      | Some t \<Rightarrow> (Inr (), d\<lparr>tasks := filter (\<lambda>x. task_id x \<noteq> i) (tasks d)\<rparr>))"

definition project_create :: "Project \<Rightarrow> db \<Rightarrow> (error + Project) \<times> db" where
  "project_create p d = (Inr p, d\<lparr>projects := projects d @ [p]\<rparr>)"

definition project_update ::
  "string \<Rightarrow> (Project \<Rightarrow> Project) \<Rightarrow> db \<Rightarrow> (error + Project) \<times> db" where
  "project_update i f d =
     (case project_findUnique d i of
        None \<Rightarrow> (Inl RecordNotFound, d)
      | Some p \<Rightarrow>
          (Inr (f p),
           d\<lparr>projects := map (\<lambda>x. if project_id x = i then f x else x) (projects d)\<rparr>))"

text \<open>
  Deleting a project cascades to its members and tasks (the schema file declares the
  cascade; \<open>ProjectService.delete\<close> documents it).
\<close>

definition project_delete :: "string \<Rightarrow> db \<Rightarrow> (error + unit) \<times> db" where
  "project_delete i d =
     (case project_findUnique d i of
        None \<Rightarrow> (Inl RecordNotFound, d)
      | Some p \<Rightarrow>
          (Inr (),
           d\<lparr>projects := filter (\<lambda>x. project_id x \<noteq> i) (projects d),
             projectMembers := filter (\<lambda>m. member_projectId m \<noteq> i) (projectMembers d),
             tasks := filter (\<lambda>t. task_projectId t \<noteq> i) (tasks d)\<rparr>))"

definition projectMember_create :: "ProjectMember \<Rightarrow> db \<Rightarrow> (error + ProjectMember) \<times> db" where
  "projectMember_create m d = (Inr m, d\<lparr>projectMembers := projectMembers d @ [m]\<rparr>)"

definition projectMember_update ::
  "string \<Rightarrow> (ProjectMember \<Rightarrow> ProjectMember) \<Rightarrow> db \<Rightarrow> (error + ProjectMember) \<times> db" where
  "projectMember_update i f d =
     (case projectMember_findUnique d i of
        None \<Rightarrow> (Inl RecordNotFound, d)
      | Some m \<Rightarrow>
          (Inr (f m),
           d\<lparr>projectMembers :=
               map (\<lambda>x. if member_id x = i then f x else x) (projectMembers d)\<rparr>))"

definition projectMember_delete :: "string \<Rightarrow> db \<Rightarrow> (error + unit) \<times> db" where
  "projectMember_delete i d =
     (case projectMember_findUnique d i of
        None \<Rightarrow> (Inl RecordNotFound, d)
      | Some m \<Rightarrow>
          (Inr (), d\<lparr>projectMembers := filter (\<lambda>x. member_id x \<noteq> i) (projectMembers d)\<rparr>))"

definition auditLog_create :: "AuditLog \<Rightarrow> db \<Rightarrow> (error + unit) \<times> db" where
  "auditLog_create a d = (Inr (), d\<lparr>auditLogs := auditLogs d @ [a]\<rparr>)"

definition user_update :: "string \<Rightarrow> (User \<Rightarrow> User) \<Rightarrow> db \<Rightarrow> (error + User) \<times> db" where
  "user_update i f d =
     (case user_findUnique d i of
        None \<Rightarrow> (Inl RecordNotFound, d)
      | Some u \<Rightarrow>
          (Inr (f u), d\<lparr>users := map (\<lambda>x. if user_id x = i then f x else x) (users d)\<rparr>))"

section \<open>Repositories\<close>

definition AuditRepository_create ::
  "string \<Rightarrow> string \<Rightarrow> AuditAction \<Rightarrow> string \<Rightarrow> (string \<times> json) list \<Rightarrow> unit tx" where
  "AuditRepository_create entityType entityId action actorId details =
     tx_stmt (auditLog_create
       \<lparr>audit_entityType = entityType, audit_entityId = entityId, audit_action = action,
        audit_actorId = actorId, audit_details = details\<rparr>)"

definition TaskRepository_findById :: "db \<Rightarrow> string \<Rightarrow> Task option" where
  "TaskRepository_findById d i = task_findUnique d i"

definition ProjectRepository_findById :: "db \<Rightarrow> string \<Rightarrow> Project option" where
  "ProjectRepository_findById d i = project_findUnique d i"

definition UserRepository_findById :: "db \<Rightarrow> string \<Rightarrow> User option" where
  "UserRepository_findById d i = user_findUnique d i"

definition getUserProjectRole :: "db \<Rightarrow> string \<Rightarrow> string \<Rightarrow> ProjectRole option" where
  "getUserProjectRole d projectId userId =
     map_option member_projectRole (projectMember_findUnique_projectId_userId d projectId userId)"

subsection \<open>Dates written to the store\<close>

text \<open>
  The ORM writes a \<open>Date\<close> as its instant and a date string as the instant it denotes;
  it refuses data with a date string it cannot read, before anything is written.
\<close>

fun parse_date :: "env \<Rightarrow> dateval \<Rightarrow> int option" where
  "parse_date ev (DateObj ms) = Some ms"
| "parse_date ev (DateStr s) = iso ev s"

definition date_accepted :: "env \<Rightarrow> dateval option \<Rightarrow> bool" where
  "date_accepted ev v = (case v of None \<Rightarrow> True | Some x \<Rightarrow> parse_date ev x \<noteq> None)"

definition stored_date :: "env \<Rightarrow> dateval option \<Rightarrow> int option" where
  \<comment> \<open>what a nullable date column holds after \<open>null\<close> or a date is written to it\<close>
  "stored_date ev v = (case v of None \<Rightarrow> None | Some x \<Rightarrow> parse_date ev x)"

section \<open>TaskService\<close>

text \<open>
  \<open>CreateTaskData\<close> is an extensible record: an object with further properties (a
  request body spread into it) is a value of \<open>'a CreateTaskData_scheme\<close>.
\<close>

record CreateTaskData =
  c_title :: string
  c_description :: "string option"
  c_priority :: "string option"
  c_dueDate :: "dateval option"
  c_projectId :: string
  c_assigneeId :: "string option option"

text \<open>
  The object \<open>update\<close> is given. The interface \<open>UpdateTaskData\<close> declares the first six
  properties, every one optional (\<open>None\<close> is \<open>undefined\<close>) and four of them nullable
  (\<open>Some None\<close> is \<open>null\<close>). The object is the request body itself: the route runs
  \<open>validate(updateTaskSchema)\<close>, which parses the body and drops the parsed value (unlike
  \<open>validateQuery\<close>, which stores it), and the controller passes \<open>req.body\<close> on. The
  schema is not strict, so the body may carry properties beyond the six. Those that are
  columns of the task are the last six properties here; \<open>{ ...data }\<close> copies them with
  the rest into the data of the store's update. Bodies with yet other properties (names
  that are no column, nested writes of relations) are not modelled.
\<close>

record UpdateTaskData =
  u_title :: "string option"
  u_description :: "string option option"
  u_status :: "TaskStatus option"
  u_priority :: "string option option"
  u_dueDate :: "dateval option option"
  u_assigneeId :: "string option option"
  u_completedAt :: "dateval option option"
  u_id :: "string option"
  u_projectId :: "string option"
  u_reporterId :: "string option"
  u_createdAt :: "dateval option"
  u_updatedAt :: "dateval option"

definition declared_only :: "UpdateTaskData \<Rightarrow> bool" where
  \<comment> \<open>the object carries no property beyond the six of the interface\<close>
  "declared_only data =
     (u_completedAt data = None \<and> u_id data = None \<and> u_projectId data = None \<and>
      u_reporterId data = None \<and> u_createdAt data = None \<and> u_updatedAt data = None)"

definition nullable :: "'a option option \<Rightarrow> 'a option" where
  \<comment> \<open>what the store keeps for an optional nullable property: \<open>undefined\<close> and \<open>null\<close> are both \<open>null\<close>\<close>
  "nullable v = (case v of Some (Some x) \<Rightarrow> Some x | _ \<Rightarrow> None)"

definition validateAssignee :: "db \<Rightarrow> string \<Rightarrow> string option option \<Rightarrow> error + unit" where
  "validateAssignee d projectId assigneeId =
     (case assigneeId of
        None \<Rightarrow> Inr ()
      | Some None \<Rightarrow> Inr ()
      | Some (Some a) \<Rightarrow>
          if a = [] then Inr ()
          else
            (case getUserProjectRole d projectId a of
               None \<Rightarrow>
                 (case user_findUnique d a of
                    None \<Rightarrow>
                      Inl (AppError_badRequest ''Assignee not found''
                             ErrorCodes_TASK_ASSIGNEE_NOT_FOUND [(''assigneeId'', JString a)])
                  | Some user \<Rightarrow>
                      if user_role user = ADMIN then Inr ()
                      else
                        Inl (AppError_badRequest ''Assignee is not a member of this project''
                               ErrorCodes_TASK_ASSIGNEE_NOT_IN_PROJECT
                               [(''assigneeId'', JString a), (''projectId'', JString projectId)]))
             | Some projectRole \<Rightarrow>
                 if projectRole = ProjectRole_VIEWER then
                   Inl (AppError_badRequest
                          ''Cannot assign tasks to view-only users. Viewers have read-only access.''
                          ErrorCodes_TASK_VIEWER_CANNOT_BE_ASSIGNED
                          [(''assigneeId'', JString a), (''projectRole'', json_role projectRole)])
                 else Inr ()))"

definition prisma_task_create ::
  "env \<Rightarrow> dateval option \<Rightarrow> Task \<Rightarrow> db \<Rightarrow> (error + Task) \<times> db" where
  \<comment> \<open>the store's \<open>task.create\<close> of a row whose \<open>dueDate\<close> is given by the data\<close>
  "prisma_task_create ev dueDate t d =
     (if date_accepted ev dueDate then task_create t d else (Inl InvalidData, d))"

definition TaskService_create ::
  "env \<Rightarrow> nat option \<Rightarrow> 'a CreateTaskData_scheme \<Rightarrow> string \<Rightarrow> db \<Rightarrow> db \<times> (error + Task)" where
  "TaskService_create ev flt data actorId d =
     (case validateAssignee d (c_projectId data) (c_assigneeId data) of
        Inl e \<Rightarrow> (d, Inl e)
      | Inr _ \<Rightarrow>
          transaction flt
            (tx_bind
               (tx_stmt (prisma_task_create ev (c_dueDate data)
                  \<lparr>task_id = newId ev,
                   task_title = c_title data,
                   task_description = c_description data,
                   task_status = defaultStatus ev,
                   task_priority = c_priority data,
                   task_dueDate = stored_date ev (c_dueDate data),
                   task_completedAt = None,
                   task_createdAt = now ev,
                   task_updatedAt = now ev,
                   task_projectId = c_projectId data,
                   task_assigneeId = nullable (c_assigneeId data),
                   task_reporterId = actorId\<rparr>))
               (\<lambda>task.
                  tx_bind
                    (AuditRepository_create ''Task'' (task_id task) CREATE actorId
                       [(''title'', JString (c_title data)),
                        (''description'', json_field JString (c_description data)),
                        (''priority'', json_field JString (c_priority data)),
                        (''dueDate'', json_field json_dateval (c_dueDate data)),
                        (''projectId'', JString (c_projectId data)),
                        (''assigneeId'', json_field (json_opt JString) (c_assigneeId data))])
                    (\<lambda>_. tx_return task)))
            d)"

definition fieldsToCheck :: "string list" where
  "fieldsToCheck =
     [''title'', ''description'', ''status'', ''priority'', ''assigneeId'', ''dueDate'']"

definition data_field :: "UpdateTaskData \<Rightarrow> string \<Rightarrow> json" where
  \<comment> \<open>\<open>data[field]\<close>\<close>
  "data_field data field =
     (if field = ''title'' then json_field JString (u_title data)
      else if field = ''description'' then json_field (json_opt JString) (u_description data)
      else if field = ''status'' then json_field json_status (u_status data)
      else if field = ''priority'' then json_field (json_opt JString) (u_priority data)
      else if field = ''assigneeId'' then json_field (json_opt JString) (u_assigneeId data)
      else if field = ''dueDate'' then json_field (json_opt json_dateval) (u_dueDate data)
      else if field = ''completedAt''
        then json_field (json_opt json_dateval) (u_completedAt data)
      else if field = ''id'' then json_field JString (u_id data)
      else if field = ''projectId'' then json_field JString (u_projectId data)
      else if field = ''reporterId'' then json_field JString (u_reporterId data)
      else if field = ''createdAt'' then json_field json_dateval (u_createdAt data)
      else if field = ''updatedAt'' then json_field json_dateval (u_updatedAt data)
      else JUndefined)"

definition current_field :: "Task \<Rightarrow> string \<Rightarrow> json" where
  \<comment> \<open>\<open>current[field]\<close>, the columns of the row\<close>
  "current_field current field =
     (if field = ''title'' then JString (task_title current)
      else if field = ''description'' then json_opt JString (task_description current)
      else if field = ''status'' then json_status (task_status current)
      else if field = ''priority'' then json_opt JString (task_priority current)
      else if field = ''assigneeId'' then json_opt JString (task_assigneeId current)
      else if field = ''dueDate'' then json_opt JDate (task_dueDate current)
      else if field = ''completedAt'' then json_opt JDate (task_completedAt current)
      else if field = ''id'' then JString (task_id current)
      else if field = ''projectId'' then JString (task_projectId current)
      else if field = ''reporterId'' then JString (task_reporterId current)
      else if field = ''createdAt'' then JDate (task_createdAt current)
      else if field = ''updatedAt'' then JDate (task_updatedAt current)
      else JUndefined)"

fun set_key :: "string \<Rightarrow> 'v \<Rightarrow> (string \<times> 'v) list \<Rightarrow> (string \<times> 'v) list" where
  \<comment> \<open>\<open>obj[k] = v\<close>: an old key keeps its place, a new key goes last\<close>
  "set_key k v [] = [(k, v)]"
| "set_key k v ((k', v') # obj) =
     (if k' = k then (k, v) # obj else (k', v') # set_key k v obj)"

fun diff_loop ::
  "Task \<Rightarrow> UpdateTaskData \<Rightarrow> string list \<Rightarrow> (string \<times> json) list \<Rightarrow> (string \<times> json) list" where
  "diff_loop current data [] diff = diff"
| "diff_loop current data (field # rest) diff =
     diff_loop current data rest
       (if data_field data field \<noteq> JUndefined then
          (let oldVal = current_field current field; newVal = data_field data field
           in if js_String oldVal \<noteq> js_String newVal
              then set_key field (JObject [(''old'', oldVal), (''new'', newVal)]) diff
              else diff)
        else diff)"

text \<open>
  The store's \<open>task.update({ where: { id }, data: updateData })\<close>. A property of the data
  that is \<open>undefined\<close> leaves its column alone; every other property is written to its
  column, also when the interface does not declare it. \<open>updatedAt\<close> is the column the
  store keeps itself: a write sets it to the time of the write unless the data carries a
  value for it (the schema file, which declares this, is not among the sources; the task
  type of the shared package has the column). Violations of the store's constraints (an
  \<open>id\<close> already taken, a project or user that does not exist) are aborts of the
  statement.
\<close>

definition prisma_accepts :: "env \<Rightarrow> UpdateTaskData \<Rightarrow> bool" where
  "prisma_accepts ev u =
     (date_accepted ev (nullable (u_dueDate u)) \<and>
      date_accepted ev (nullable (u_completedAt u)) \<and>
      date_accepted ev (u_createdAt u) \<and>
      date_accepted ev (u_updatedAt u))"

definition prisma_task_data :: "env \<Rightarrow> UpdateTaskData \<Rightarrow> Task \<Rightarrow> Task" where
  \<comment> \<open>the row under \<open>data: updateData\<close>\<close>
  "prisma_task_data ev u t =
     t\<lparr>task_id := (case u_id u of None \<Rightarrow> task_id t | Some v \<Rightarrow> v),
       task_title := (case u_title u of None \<Rightarrow> task_title t | Some v \<Rightarrow> v),
       task_description := (case u_description u of None \<Rightarrow> task_description t | Some v \<Rightarrow> v),
       task_status := (case u_status u of None \<Rightarrow> task_status t | Some v \<Rightarrow> v),
       task_priority := (case u_priority u of None \<Rightarrow> task_priority t | Some v \<Rightarrow> v),
       task_dueDate :=
         (case u_dueDate u of None \<Rightarrow> task_dueDate t | Some v \<Rightarrow> stored_date ev v),
       task_completedAt :=
         (case u_completedAt u of None \<Rightarrow> task_completedAt t | Some v \<Rightarrow> stored_date ev v),
       task_createdAt :=
         (case stored_date ev (u_createdAt u) of None \<Rightarrow> task_createdAt t | Some ms \<Rightarrow> ms),
       task_updatedAt :=
         (case stored_date ev (u_updatedAt u) of None \<Rightarrow> now ev | Some ms \<Rightarrow> ms),
       task_projectId := (case u_projectId u of None \<Rightarrow> task_projectId t | Some v \<Rightarrow> v),
       task_assigneeId := (case u_assigneeId u of None \<Rightarrow> task_assigneeId t | Some v \<Rightarrow> v),
       task_reporterId := (case u_reporterId u of None \<Rightarrow> task_reporterId t | Some v \<Rightarrow> v)\<rparr>"

definition prisma_task_update ::
  "env \<Rightarrow> string \<Rightarrow> UpdateTaskData \<Rightarrow> db \<Rightarrow> (error + Task) \<times> db" where
  "prisma_task_update ev i u d =
     (if prisma_accepts ev u then task_update i (prisma_task_data ev u) d
      else (Inl InvalidData, d))"

definition updateData :: "env \<Rightarrow> Task \<Rightarrow> UpdateTaskData \<Rightarrow> UpdateTaskData" where
  \<comment> \<open>\<open>{ ...data }\<close>, then \<open>completedAt\<close> set on a status transition into or out of \<open>DONE\<close>\<close>
  "updateData ev current data =
     (let updateData0 = data
      in if u_status data = Some DONE \<and> task_status current \<noteq> DONE
         then updateData0\<lparr>u_completedAt := Some (Some (DateObj (now ev)))\<rparr>
         else if u_status data \<noteq> None \<and> u_status data \<noteq> Some DONE
                 \<and> task_status current = DONE
         then updateData0\<lparr>u_completedAt := Some None\<rparr>
         else updateData0)"

definition TaskService_update ::
  "env \<Rightarrow> nat option \<Rightarrow> string \<Rightarrow> UpdateTaskData \<Rightarrow> string \<Rightarrow> db \<Rightarrow> db \<times> (error + Task)" where
  "TaskService_update ev flt i data actorId d =
     (case TaskRepository_findById d i of
        None \<Rightarrow> (d, Inl (AppError_notFound ''Task not found'' ErrorCodes_TASK_NOT_FOUND))
      | Some current \<Rightarrow>
          (case (if u_assigneeId data \<noteq> None
                 then validateAssignee d (task_projectId current) (u_assigneeId data)
                 else Inr ()) of
             Inl e \<Rightarrow> (d, Inl e)
           | Inr _ \<Rightarrow>
               transaction flt
                 (tx_bind
                    (tx_stmt (prisma_task_update ev i (updateData ev current data)))
                    (\<lambda>task.
                       (let diff = diff_loop current data fieldsToCheck []
                        in tx_bind
                             (if length diff > 0
                              then AuditRepository_create ''Task'' i UPDATE actorId diff
                              else tx_return ())
                             (\<lambda>_. tx_return task))))
                 d))"

definition TaskService_delete ::
  "nat option \<Rightarrow> string \<Rightarrow> string \<Rightarrow> db \<Rightarrow> db \<times> (error + unit)" where
  "TaskService_delete flt i actorId d =
     (case TaskRepository_findById d i of
        None \<Rightarrow> (d, Inl (AppError_notFound ''Task not found'' ErrorCodes_TASK_NOT_FOUND))
      | Some task \<Rightarrow>
          transaction flt
            (tx_bind (tx_stmt (task_delete i))
               (\<lambda>_. AuditRepository_create ''Task'' i DELETE actorId
                       [(''title'', JString (task_title task)),
                        (''description'', json_opt JString (task_description task)),
                        (''status'', json_status (task_status task)),
                        (''priority'', json_opt JString (task_priority task)),
                        (''dueDate'', json_opt JDate (task_dueDate task)),
                        (''projectId'', JString (task_projectId task)),
                        (''assigneeId'', json_opt JString (task_assigneeId task))]))
            d)"

section \<open>ProjectService\<close>

record CreateProjectData =
  cp_name :: string
  cp_description :: "string option"

record UpdateProjectData =
  up_name :: "string option"
  up_description :: "string option option"

definition ProjectService_create ::
  "env \<Rightarrow> nat option \<Rightarrow> CreateProjectData \<Rightarrow> string \<Rightarrow> db \<Rightarrow> db \<times> (error + Project)" where
  "ProjectService_create ev flt data actorId d =
     transaction flt
       (tx_bind
          (tx_stmt (project_create
             \<lparr>project_id = newId ev, project_name = cp_name data,
              project_description = cp_description data\<rparr>))
          (\<lambda>project.
             tx_bind
               (AuditRepository_create ''Project'' (project_id project) CREATE actorId
                  [(''name'', JString (cp_name data)),
                   (''description'', json_field JString (cp_description data))])
               (\<lambda>_. tx_return project)))
       d"

definition prisma_project_data :: "UpdateProjectData \<Rightarrow> Project \<Rightarrow> Project" where
  "prisma_project_data u p =
     p\<lparr>project_name := (case up_name u of None \<Rightarrow> project_name p | Some v \<Rightarrow> v),
       project_description :=
         (case up_description u of None \<Rightarrow> project_description p | Some v \<Rightarrow> v)\<rparr>"

definition project_diff :: "Project \<Rightarrow> UpdateProjectData \<Rightarrow> (string \<times> json) list" where
  "project_diff current data =
     (let diff0 = [];
          diff1 =
            (if up_name data \<noteq> None \<and> up_name data \<noteq> Some (project_name current)
             then set_key ''name''
                    (JObject [(''old'', JString (project_name current)),
                              (''new'', json_field JString (up_name data))]) diff0
             else diff0)
      in if up_description data \<noteq> None \<and> up_description data \<noteq> Some (project_description current)
         then set_key ''description''
                (JObject [(''old'', json_opt JString (project_description current)),
                          (''new'', json_field (json_opt JString) (up_description data))]) diff1
         else diff1)"

definition ProjectService_update ::
  "nat option \<Rightarrow> string \<Rightarrow> UpdateProjectData \<Rightarrow> string \<Rightarrow> db \<Rightarrow> db \<times> (error + Project)" where
  "ProjectService_update flt i data actorId d =
     (case ProjectRepository_findById d i of
        None \<Rightarrow> (d, Inl (AppError_notFound ''Project not found'' ErrorCodes_PROJECT_NOT_FOUND))
      | Some current \<Rightarrow>
          transaction flt
            (tx_bind (tx_stmt (project_update i (prisma_project_data data)))
               (\<lambda>updated.
                  (let diff = project_diff current data
                   in tx_bind
                        (if length diff > 0
                         then AuditRepository_create ''Project'' i UPDATE actorId diff
                         else tx_return ())
                        (\<lambda>_. tx_return updated))))
            d)"

definition ProjectService_delete ::
  "nat option \<Rightarrow> string \<Rightarrow> string \<Rightarrow> db \<Rightarrow> db \<times> (error + unit)" where
  "ProjectService_delete flt i actorId d =
     (case ProjectRepository_findById d i of
        None \<Rightarrow> (d, Inl (AppError_notFound ''Project not found'' ErrorCodes_PROJECT_NOT_FOUND))
      | Some project \<Rightarrow>
          transaction flt
            (tx_bind (tx_stmt (project_delete i))
               (\<lambda>_. AuditRepository_create ''Project'' i DELETE actorId
                       [(''name'', JString (project_name project)),
                        (''description'', json_opt JString (project_description project))]))
            d)"

text \<open>
  A member read or written with \<open>include: { user }\<close> comes with the user row the member
  references. The relation is required: the store holds no member without its user, and an
  insert that names no existing user is aborted.
\<close>

definition projectMember_findUnique_include_user ::
  "db \<Rightarrow> string \<Rightarrow> (ProjectMember \<times> User) option" where
  "projectMember_findUnique_include_user d i =
     (case projectMember_findUnique d i of
        None \<Rightarrow> None
      | Some m \<Rightarrow>
          (case user_findUnique d (member_userId m) of
             None \<Rightarrow> None
           | Some u \<Rightarrow> Some (m, u)))"

definition projectMember_create_include_user ::
  "ProjectMember \<Rightarrow> db \<Rightarrow> (error + ProjectMember \<times> User) \<times> db" where
  "projectMember_create_include_user m d =
     (case user_findUnique d (member_userId m) of
        None \<Rightarrow> (Inl StoreAbort, d)
      | Some u \<Rightarrow> (Inr (m, u), d\<lparr>projectMembers := projectMembers d @ [m]\<rparr>))"

definition ProjectService_addMember ::
  "env \<Rightarrow> nat option \<Rightarrow> string \<Rightarrow> string \<Rightarrow> ProjectRole \<Rightarrow> string \<Rightarrow> db
     \<Rightarrow> db \<times> (error + ProjectMember \<times> User)" where
  "ProjectService_addMember ev flt projectId userId projectRole actorId d =
     (case ProjectRepository_findById d projectId of
        None \<Rightarrow> (d, Inl (AppError_notFound ''Project not found'' ErrorCodes_PROJECT_NOT_FOUND))
      | Some project \<Rightarrow>
          (case UserRepository_findById d userId of
             None \<Rightarrow>
               (d, Inl (AppError_badRequest ''User not found'' ErrorCodes_USER_NOT_FOUND
                          [(''userId'', JString userId)]))
           | Some user \<Rightarrow>
               (case getUserProjectRole d projectId userId of
                  Some existingRole \<Rightarrow>
                    (d, Inl (AppError_badRequest ''User is already a member of this project''
                               ErrorCodes_PROJECT_MEMBER_ALREADY_EXISTS
                               [(''userId'', JString userId), (''projectId'', JString projectId),
                                (''existingRole'', json_role existingRole)]))
                | None \<Rightarrow>
                    transaction flt
                      (tx_bind
                         (tx_stmt (projectMember_create_include_user
                            \<lparr>member_id = newId ev, member_projectId = projectId,
                             member_userId = userId, member_projectRole = projectRole\<rparr>))
                         (\<lambda>member.
                            tx_bind
                              (AuditRepository_create ''Project'' projectId UPDATE actorId
                                 [(''memberAdded'',
                                   JObject
                                     [(''userId'', JString userId),
                                      (''userName'', JString (user_name (snd member))),
                                      (''userEmail'', JString (user_email (snd member))),
                                      (''projectRole'', json_role projectRole)])])
                              (\<lambda>_. tx_return member)))
                      d)))"

definition ProjectService_updateMemberRole ::
  "nat option \<Rightarrow> string \<Rightarrow> string \<Rightarrow> ProjectRole \<Rightarrow> string \<Rightarrow> db
     \<Rightarrow> db \<times> (error + ProjectMember)" where
  "ProjectService_updateMemberRole flt projectId memberId newRole actorId d =
     (case projectMember_findUnique_include_user d memberId of
        None \<Rightarrow>
          (d, Inl (AppError_notFound ''Member not found in this project''
                     ErrorCodes_PROJECT_MEMBER_NOT_FOUND))
      | Some (member, user) \<Rightarrow>
          if member_projectId member \<noteq> projectId then
            (d, Inl (AppError_notFound ''Member not found in this project''
                       ErrorCodes_PROJECT_MEMBER_NOT_FOUND))
          else
            (let oldRole = member_projectRole member
             in if oldRole = newRole then (d, Inr member)
                else
                  transaction flt
                    (tx_bind
                       (tx_stmt (projectMember_update memberId
                          (\<lambda>m. m\<lparr>member_projectRole := newRole\<rparr>)))
                       (\<lambda>updated.
                          tx_bind
                            (AuditRepository_create ''Project'' projectId UPDATE actorId
                               [(''memberRoleChanged'',
                                 JObject
                                   [(''userId'', JString (member_userId member)),
                                    (''userName'', JString (user_name user)),
                                    (''projectRole'',
                                     JObject [(''old'', json_role oldRole),
                                              (''new'', json_role newRole)])])])
                            (\<lambda>_. tx_return updated)))
                    d))"

definition ProjectService_removeMember ::
  "nat option \<Rightarrow> string \<Rightarrow> string \<Rightarrow> string \<Rightarrow> db \<Rightarrow> db \<times> (error + unit)" where
  "ProjectService_removeMember flt projectId memberId actorId d =
     transaction flt
       (tx_bind (tx_stmt (\<lambda>w. (Inr (projectMember_findUnique_include_user w memberId), w)))
          (\<lambda>found.
             (case found of
                None \<Rightarrow>
                  tx_throw (AppError_notFound ''Member not found in this project''
                              ErrorCodes_PROJECT_MEMBER_NOT_FOUND)
              | Some (member, user) \<Rightarrow>
                  if member_projectId member \<noteq> projectId then
                    tx_throw (AppError_notFound ''Member not found in this project''
                                ErrorCodes_PROJECT_MEMBER_NOT_FOUND)
                  else
                    tx_bind (tx_stmt (projectMember_delete memberId))
                      (\<lambda>_. AuditRepository_create ''Project'' projectId UPDATE actorId
                              [(''memberRemoved'',
                                JObject
                                  [(''userId'', JString (member_userId member)),
                                   (''userName'', JString (user_name user)),
                                   (''userEmail'', JString (user_email user)),
                                   (''projectRole'', json_role (member_projectRole member))])]))))
       d"

section \<open>UserController\<close>

text \<open>
  \<open>update\<close> reads \<open>name\<close> and \<open>role\<close> from the request body; \<open>actor\<close> is
  \<open>req.user.id\<close> and \<open>i\<close> is \<open>req.params.id\<close>. A role, when present, is one of the
  three enum members, each a non-empty string and so truthy.
\<close>

record UpdateUserBody =
  b_name :: "string option"
  b_role :: "UserRole option"

definition UserController_update ::
  "string \<Rightarrow> string \<Rightarrow> UpdateUserBody \<Rightarrow> db \<Rightarrow> db \<times> (error + User)" where
  "UserController_update actor i body d =
     (case UserRepository_findById d i of
        None \<Rightarrow> (d, Inl (AppError ''User not found'' 404 None None))
      | Some existingUser \<Rightarrow>
          if actor = i \<and> b_role body \<noteq> None \<and> b_role body \<noteq> Some (user_role existingUser)
          then (d, Inl (AppError ''Cannot change your own role'' 400 None None))
          else
            (case user_update i
                    (\<lambda>u. u\<lparr>user_name := (case b_name body of None \<Rightarrow> user_name u | Some v \<Rightarrow> v),
                           user_role := (case b_role body of None \<Rightarrow> user_role u | Some v \<Rightarrow> v)\<rparr>)
                    d of
               (Inl e, d') \<Rightarrow> (d, Inl e)
             | (Inr updatedUser, d') \<Rightarrow> (d', Inr updatedUser)))"

section \<open>AnalyticsService\<close>





definition range_of :: "rat \<Rightarrow> string" where
  "range_of h =
     (if h < 24 then ''< 1 Day''
      else if 24 \<le> h \<and> h \<le> 72 then ''1-3 Days''
      else if 72 \<le> h \<and> h \<le> 168 then ''3-7 Days''
      else ''> 7 Days'')"









section \<open>A small store\<close>

text \<open>
  One project with a member, a viewer and an administrator who also holds a viewer row;
  a second administrator and a further user hold no row in it. Task \<open>t1\<close> is open, task
  \<open>t2\<close> was completed at 5000.
\<close>

definition ex_users :: "User list" where
  "ex_users =
     [\<lparr>user_id = ''ua'', user_email = ''a@x'', user_name = ''Ann'', user_password = ''h1'',
       user_role = ADMIN\<rparr>,
      \<lparr>user_id = ''um'', user_email = ''m@x'', user_name = ''Max'', user_password = ''h2'',
       user_role = MEMBER\<rparr>,
      \<lparr>user_id = ''uv'', user_email = ''v@x'', user_name = ''Vic'', user_password = ''h3'',
       user_role = VIEWER\<rparr>,
      \<lparr>user_id = ''ub'', user_email = ''b@x'', user_name = ''Bea'', user_password = ''h4'',
       user_role = ADMIN\<rparr>,
      \<lparr>user_id = ''uo'', user_email = ''o@x'', user_name = ''Oli'', user_password = ''h5'',
       user_role = MEMBER\<rparr>]"

definition ex_members :: "ProjectMember list" where
  "ex_members =
     [\<lparr>member_id = ''m1'', member_projectId = ''p1'', member_userId = ''um'',
       member_projectRole = ProjectRole_MEMBER\<rparr>,
      \<lparr>member_id = ''m2'', member_projectId = ''p1'', member_userId = ''uv'',
       member_projectRole = ProjectRole_VIEWER\<rparr>,
      \<lparr>member_id = ''m3'', member_projectId = ''p1'', member_userId = ''ua'',
       member_projectRole = ProjectRole_VIEWER\<rparr>]"

definition ex_t1 :: Task where
  "ex_t1 =
     \<lparr>task_id = ''t1'', task_title = ''Plan'', task_description = None, task_status = TODO,
      task_priority = None, task_dueDate = None, task_completedAt = None,
      task_createdAt = 1000, task_updatedAt = 1000, task_projectId = ''p1'',
      task_assigneeId = None, task_reporterId = ''um''\<rparr>"

definition ex_t2 :: Task where
  "ex_t2 =
     \<lparr>task_id = ''t2'', task_title = ''Ship'', task_description = Some ''done'',
      task_status = DONE, task_priority = Some ''High'', task_dueDate = None,
      task_completedAt = Some 5000, task_createdAt = 2000, task_updatedAt = 5000,
      task_projectId = ''p1'', task_assigneeId = Some ''um'', task_reporterId = ''um''\<rparr>"

definition ex_db :: db where
  "ex_db =
     \<lparr>users = ex_users,
      projects = [\<lparr>project_id = ''p1'', project_name = ''Apollo'', project_description = None\<rparr>],
      projectMembers = ex_members,
      tasks = [ex_t1, ex_t2],
      auditLogs = []\<rparr>"

definition ex_db_instant :: db where
  \<comment> \<open>the same store with \<open>t2\<close> as its only task, completed at the instant of its creation\<close>
  "ex_db_instant = ex_db\<lparr>tasks := [ex_t2\<lparr>task_completedAt := Some 2000\<rparr>]\<rparr>"

definition ex_t3 :: Task where
  \<comment> \<open>an open task that is due at 7000, the instant \<open>1970-01-01T00:00:07.000Z\<close>\<close>
  "ex_t3 =
     \<lparr>task_id = ''t3'', task_title = ''Test'', task_description = None, task_status = TODO,
      task_priority = None, task_dueDate = Some 7000, task_completedAt = None,
      task_createdAt = 3000, task_updatedAt = 3000, task_projectId = ''p1'',
      task_assigneeId = None, task_reporterId = ''um''\<rparr>"

definition ex_db_due :: db where
  \<comment> \<open>the same store with \<open>t3\<close> as a third task\<close>
  "ex_db_due = ex_db\<lparr>tasks := [ex_t1, ex_t2, ex_t3]\<rparr>"

definition ex_db_two :: db where
  \<comment> \<open>the same store with a second project\<close>
  "ex_db_two =
     ex_db\<lparr>projects :=
             [\<lparr>project_id = ''p1'', project_name = ''Apollo'', project_description = None\<rparr>,
              \<lparr>project_id = ''p2'', project_name = ''Gemini'', project_description = None\<rparr>]\<rparr>"

definition ex_iso :: "string \<Rightarrow> int option" where
  \<comment> \<open>the reading of the date strings the examples use\<close>
  "ex_iso s =
     (if s = ''1970-01-01T00:00:07.000Z'' then Some 7000
      else if s = ''1970-01-01T00:00:08.000Z'' then Some 8000
      else None)"

definition ex_env :: env where
  "ex_env = \<lparr>now = 9000, newId = ''n1'', defaultStatus = TODO, iso = ex_iso\<rparr>"

definition no_patch :: UpdateTaskData where
  \<comment> \<open>the empty patch \<open>{}\<close>\<close>
  "no_patch =
     \<lparr>u_title = None, u_description = None, u_status = None, u_priority = None,
      u_dueDate = None, u_assigneeId = None, u_completedAt = None, u_id = None,
      u_projectId = None, u_reporterId = None, u_createdAt = None, u_updatedAt = None\<rparr>"

text \<open>A client object for \<open>create\<close> that carries a \<open>reporterId\<close> of its own.\<close>

record CreateTaskData_reporterId = CreateTaskData +
  x_reporterId :: string

section \<open>Patches that change nothing\<close>

text \<open>
  A patch is identical to the current values when every property it supplies equals the
  entity's current value of that property; a date it supplies is the instant of the column.
\<close>

definition task_patch_identical :: "env \<Rightarrow> Task \<Rightarrow> UpdateTaskData \<Rightarrow> bool" where
  "task_patch_identical ev current data =
     (declared_only data \<and> prisma_accepts ev data \<and>
      (u_title data = None \<or> u_title data = Some (task_title current)) \<and>
      (u_description data = None \<or> u_description data = Some (task_description current)) \<and>
      (u_status data = None \<or> u_status data = Some (task_status current)) \<and>
      (u_priority data = None \<or> u_priority data = Some (task_priority current)) \<and>
      (u_assigneeId data = None \<or> u_assigneeId data = Some (task_assigneeId current)) \<and>
      (u_dueDate data = None \<or> stored_date ev (nullable (u_dueDate data)) = task_dueDate current))"

definition project_patch_identical :: "Project \<Rightarrow> UpdateProjectData \<Rightarrow> bool" where
  "project_patch_identical current data =
     ((up_name data = None \<or> up_name data = Some (project_name current)) \<and>
      (up_description data = None \<or> up_description data = Some (project_description current)))"

section \<open>Audit records of a call\<close>

text \<open>
  The audit log grew by exactly one record, of the given entity type, entity, action and
  actor.
\<close>

definition audit_appended ::
  "db \<Rightarrow> db \<Rightarrow> string \<Rightarrow> string \<Rightarrow> AuditAction \<Rightarrow> string \<Rightarrow> bool" where
  "audit_appended d d' entityType entityId action actorId =
     (\<exists>details. auditLogs d' = auditLogs d @
        [\<lparr>audit_entityType = entityType, audit_entityId = entityId, audit_action = action,
          audit_actorId = actorId, audit_details = details\<rparr>])"

section \<open>Evaluation and transaction lemmas\<close>

lemmas store_defs =
  user_findUnique_def project_findUnique_def task_findUnique_def projectMember_findUnique_def
  projectMember_findUnique_projectId_userId_def task_create_def task_update_def task_delete_def
  project_create_def project_update_def project_delete_def projectMember_create_def
  projectMember_update_def projectMember_delete_def auditLog_create_def user_update_def
  AuditRepository_create_def TaskRepository_findById_def ProjectRepository_findById_def
  UserRepository_findById_def getUserProjectRole_def
  projectMember_findUnique_include_user_def projectMember_create_include_user_def
  prisma_task_create_def date_accepted_def stored_date_def

lemmas tx_defs = tx_return_def tx_throw_def tx_bind_def tx_stmt_def transaction_def

lemmas ex_defs = ex_users_def ex_members_def ex_t1_def ex_t2_def ex_db_def ex_env_def no_patch_def
  ex_db_instant_def ex_t3_def ex_db_due_def ex_db_two_def ex_iso_def

lemmas update_defs = TaskService_update_def prisma_task_update_def prisma_accepts_def
  nullable_def updateData_def prisma_task_data_def
  fieldsToCheck_def data_field_def current_field_def json_field_def json_opt_def json_status_def

lemma transaction_error_unchanged:
  "transaction flt body d = (d', Inl e) \<Longrightarrow> d' = d"
  unfolding transaction_def
  by (auto split: prod.splits sum.splits option.splits nat.splits)

lemma find_map_update:
  assumes "find (\<lambda>t. key t = i) xs = Some t" and "\<And>x. key (f x) = key x"
  shows "find (\<lambda>t. key t = i) (map (\<lambda>x. if key x = i then f x else x) xs) = Some (f t)"
  using assms by (induction xs) (auto split: if_splits)

lemma updateData_others:
  "u_title (updateData ev current data) = u_title data"
  "u_description (updateData ev current data) = u_description data"
  "u_status (updateData ev current data) = u_status data"
  "u_priority (updateData ev current data) = u_priority data"
  "u_dueDate (updateData ev current data) = u_dueDate data"
  "u_assigneeId (updateData ev current data) = u_assigneeId data"
  "u_id (updateData ev current data) = u_id data"
  "u_projectId (updateData ev current data) = u_projectId data"
  "u_reporterId (updateData ev current data) = u_reporterId data"
  "u_createdAt (updateData ev current data) = u_createdAt data"
  "u_updatedAt (updateData ev current data) = u_updatedAt data"
  by (simp_all add: updateData_def Let_def)

lemma updateData_completedAt:
  "u_completedAt (updateData ev current data) =
     (if u_status data = Some DONE \<and> task_status current \<noteq> DONE
      then Some (Some (DateObj (now ev)))
      else if u_status data \<noteq> None \<and> u_status data \<noteq> Some DONE \<and> task_status current = DONE
      then Some None
      else u_completedAt data)"
  by (simp add: updateData_def Let_def)

lemma task_id_prisma_task_data:
  "u_id u = None \<Longrightarrow> task_id (prisma_task_data ev u t) = task_id t"
  by (simp add: prisma_task_data_def)

lemma tx_write_then_maybe_audit:
  assumes "transaction flt
     (tx_bind (tx_stmt q)
        (\<lambda>x. tx_bind (if c then AuditRepository_create et ei ac actor det else tx_return ())
               (\<lambda>_. tx_return x))) d = (d', Inr r)"
  shows "\<exists>d1. q d = (Inr r, d1) \<and>
           d' = (if c then d1\<lparr>auditLogs := auditLogs d1 @
                   [\<lparr>audit_entityType = et, audit_entityId = ei, audit_action = ac,
                     audit_actorId = actor, audit_details = det\<rparr>]\<rparr> else d1)"
  using assms
  unfolding transaction_def tx_bind_def tx_stmt_def tx_return_def AuditRepository_create_def
    auditLog_create_def
  by (auto split: prod.splits sum.splits option.splits nat.splits if_splits)

lemma tx_write_then_audit:
  assumes "transaction flt
     (tx_bind (tx_stmt q)
        (\<lambda>x. tx_bind (AuditRepository_create et (ei x) ac actor (det x)) (\<lambda>_. tx_return x)))
     d = (d', Inr r)"
  shows "\<exists>d1. q d = (Inr r, d1) \<and>
           d' = d1\<lparr>auditLogs := auditLogs d1 @
                   [\<lparr>audit_entityType = et, audit_entityId = ei r, audit_action = ac,
                     audit_actorId = actor, audit_details = det r\<rparr>]\<rparr>"
  using assms
  unfolding transaction_def tx_bind_def tx_stmt_def tx_return_def AuditRepository_create_def
    auditLog_create_def
  by (auto split: prod.splits sum.splits option.splits nat.splits if_splits)

lemma TaskService_update_success:
  assumes "TaskService_update ev flt i data actorId d = (d', Inr task)"
  shows "\<exists>current. TaskRepository_findById d i = Some current \<and>
           prisma_accepts ev (updateData ev current data) \<and>
           task = prisma_task_data ev (updateData ev current data) current \<and>
           d' = d\<lparr>tasks := map (\<lambda>x. if task_id x = i
                                  then prisma_task_data ev (updateData ev current data) x
                                  else x) (tasks d),
                  auditLogs :=
                    (if length (diff_loop current data fieldsToCheck []) > 0
                     then auditLogs d @
                       [\<lparr>audit_entityType = ''Task'', audit_entityId = i, audit_action = UPDATE,
                         audit_actorId = actorId,
                         audit_details = diff_loop current data fieldsToCheck []\<rparr>]
                     else auditLogs d)\<rparr>"
proof (cases "TaskRepository_findById d i")
  case None
  with assms show ?thesis by (simp add: TaskService_update_def)
next
  case (Some current)
  let ?v = "(if u_assigneeId data \<noteq> None
                 then validateAssignee d (task_projectId current) (u_assigneeId data)
                 else Inr ())"
  let ?diff = "diff_loop current data fieldsToCheck []"
  let ?u = "updateData ev current data"
  let ?f = "prisma_task_data ev ?u"
  show ?thesis
  proof (cases ?v)
    case (Inl e)
    with assms Some show ?thesis by (simp add: TaskService_update_def)
  next
    case (Inr u)
    from assms Some Inr have tx: "transaction flt
         (tx_bind (tx_stmt (prisma_task_update ev i ?u))
            (\<lambda>task. tx_bind
                 (if length ?diff > 0
                  then AuditRepository_create ''Task'' i UPDATE actorId ?diff
                  else tx_return ())
                 (\<lambda>_. tx_return task)))
         d = (d', Inr task)"
      by (simp add: TaskService_update_def Let_def)
    from tx_write_then_maybe_audit [OF tx] obtain d1 where
      q: "prisma_task_update ev i ?u d = (Inr task, d1)"
      and d': "d' = (if length ?diff > 0 then d1\<lparr>auditLogs := auditLogs d1 @
                   [\<lparr>audit_entityType = ''Task'', audit_entityId = i, audit_action = UPDATE,
                     audit_actorId = actorId, audit_details = ?diff\<rparr>]\<rparr> else d1)"
      by blast
    from q have acc: "prisma_accepts ev ?u" and q': "task_update i ?f d = (Inr task, d1)"
      by (auto simp: prisma_task_update_def split: if_splits)
    from Some have f: "task_findUnique d i = Some current"
      by (simp add: TaskRepository_findById_def)
    from q' f have "task = ?f current"
      and "d1 = d\<lparr>tasks := map (\<lambda>x. if task_id x = i then ?f x else x) (tasks d)\<rparr>"
      by (auto simp: task_update_def)
    with d' Some acc show ?thesis by auto
  qed
qed

lemma TaskService_update_error:
  assumes "TaskService_update ev flt i data actorId d = (d', Inl e)"
  shows "d' = d"
  using assms transaction_error_unchanged
  unfolding TaskService_update_def
  by (fastforce split: option.splits sum.splits if_splits)

lemma TaskService_update_stored:
  assumes "TaskService_update ev flt i data actorId d = (d', Inr task)"
    and "u_id data = None"
  shows "TaskRepository_findById d' i = Some task"
proof -
  from TaskService_update_success [OF assms(1)] obtain current where
    c: "TaskRepository_findById d i = Some current"
    and t: "task = prisma_task_data ev (updateData ev current data) current"
    and d': "tasks d' = map (\<lambda>x. if task_id x = i
               then prisma_task_data ev (updateData ev current data) x else x) (tasks d)"
    by auto
  from c have "find (\<lambda>t. task_id t = i) (tasks d) = Some current"
    by (simp add: TaskRepository_findById_def task_findUnique_def)
  moreover have "\<And>x. task_id (prisma_task_data ev (updateData ev current data) x) = task_id x"
    using assms(2) by (simp add: task_id_prisma_task_data updateData_others)
  ultimately show ?thesis using t d'
    find_map_update [where key = task_id and i = i and xs = "tasks d" and t = current
      and f = "prisma_task_data ev (updateData ev current data)"]
    by (simp add: TaskRepository_findById_def task_findUnique_def)
qed

lemma TaskService_update_completedAt:
  assumes "TaskService_update ev flt i data actorId d = (d', Inr task)"
    and "TaskRepository_findById d i = Some current"
  shows "task_completedAt task =
      (if u_status data = Some DONE \<and> task_status current \<noteq> DONE then Some (now ev)
       else if u_status data \<noteq> None \<and> u_status data \<noteq> Some DONE \<and> task_status current = DONE
       then None
       else (case u_completedAt data of
               None \<Rightarrow> task_completedAt current
             | Some v \<Rightarrow> stored_date ev v))"
proof -
  from TaskService_update_success [OF assms(1)] assms(2)
  have t: "task = prisma_task_data ev (updateData ev current data) current" by auto
  show ?thesis
    unfolding t by (simp add: prisma_task_data_def updateData_completedAt stored_date_def)
qed

lemma TaskService_update_audit:
  assumes "TaskService_update ev flt i data actorId d = (d', Inr task)"
    and "TaskRepository_findById d i = Some current"
  shows "auditLogs d' = auditLogs d @
           (if diff_loop current data fieldsToCheck [] = [] then []
            else [\<lparr>audit_entityType = ''Task'', audit_entityId = i, audit_action = UPDATE,
                   audit_actorId = actorId,
                   audit_details = diff_loop current data fieldsToCheck []\<rparr>])"
  using TaskService_update_success [OF assms(1)] assms(2) by auto

subsection \<open>The diff loop\<close>

lemma set_key_cases:
  "(a, b) \<in> set (set_key k v obj) \<Longrightarrow> (a, b) \<in> set obj \<or> (a = k \<and> b = v)"
  by (induction obj) (auto split: if_splits)

lemma set_key_same: "(k, v) \<in> set (set_key k v obj)"
  by (induction obj) auto

lemma set_key_other: "(a, b) \<in> set obj \<Longrightarrow> a \<noteq> k \<Longrightarrow> (a, b) \<in> set (set_key k v obj)"
  by (induction obj) auto

lemma set_key_new: "k \<notin> fst ` set obj \<Longrightarrow> set_key k v obj = obj @ [(k, v)]"
  by (induction obj) auto

text \<open>
  What the loop computes, said without the loop: the fields of the list, in their order,
  that the patch supplies and whose text differs from the text of the current value, each
  with the current value as \<open>old\<close> and the patch's value as \<open>new\<close>.
\<close>

lemma diff_loop_eq:
  assumes "distinct fs" and "set fs \<inter> fst ` set acc = {}"
  shows "diff_loop current data fs acc =
     acc @ map (\<lambda>k. (k, JObject [(''old'', current_field current k),
                                  (''new'', data_field data k)]))
             (filter (\<lambda>k. data_field data k \<noteq> JUndefined \<and>
                           js_String (current_field current k) \<noteq> js_String (data_field data k))
                fs)"
  using assms
proof (induction fs arbitrary: acc)
  case Nil
  then show ?case by simp
next
  case (Cons f fs)
  let ?e = "(f, JObject [(''old'', current_field current f), (''new'', data_field data f)])"
  from Cons.prems have nf: "f \<notin> fst ` set acc" and d: "distinct fs" and nin: "f \<notin> set fs"
    and disj: "set fs \<inter> fst ` set acc = {}" by auto
  show ?case
  proof (cases "data_field data f \<noteq> JUndefined \<and>
      js_String (current_field current f) \<noteq> js_String (data_field data f)")
    case True
    have step: "set_key f (snd ?e) acc = acc @ [?e]"
      using set_key_new [OF nf] by simp
    have "set fs \<inter> fst ` set (acc @ [?e]) = {}" using disj nin by auto
    from Cons.IH [OF d this] True step show ?thesis by (simp add: Let_def)
  next
    case False
    from Cons.IH [OF d disj] False show ?thesis by (auto simp: Let_def)
  qed
qed

lemma diff_loop_entries:
  "(k, v) \<in> set (diff_loop current data fs acc) \<Longrightarrow>
     (k, v) \<in> set acc \<or>
     (k \<in> set fs \<and> data_field data k \<noteq> JUndefined \<and>
      js_String (current_field current k) \<noteq> js_String (data_field data k) \<and>
      v = JObject [(''old'', current_field current k), (''new'', data_field data k)])"
proof (induction fs arbitrary: acc)
  case Nil
  then show ?case by simp
next
  case (Cons f fs)
  from Cons.IH [OF Cons.prems [simplified]] show ?case
    by (auto simp: Let_def dest: set_key_cases split: if_splits)
qed

lemma diff_loop_keeps:
  "(k, v) \<in> set acc \<Longrightarrow>
   v = JObject [(''old'', current_field current k), (''new'', data_field data k)] \<Longrightarrow>
   (k, v) \<in> set (diff_loop current data fs acc)"
proof (induction fs arbitrary: acc)
  case Nil
  then show ?case by simp
next
  case (Cons f fs)
  let ?acc' = "(if data_field data f \<noteq> JUndefined then
          (let oldVal = current_field current f; newVal = data_field data f
           in if js_String oldVal \<noteq> js_String newVal
              then set_key f (JObject [(''old'', oldVal), (''new'', newVal)]) acc
              else acc)
        else acc)"
  have "(k, v) \<in> set ?acc'"
    using Cons.prems by (cases "f = k") (auto simp: Let_def set_key_same set_key_other)
  from Cons.IH [OF this Cons.prems(2)] show ?case by simp
qed

lemma diff_loop_records:
  "k \<in> set fs \<Longrightarrow> data_field data k \<noteq> JUndefined \<Longrightarrow>
   js_String (current_field current k) \<noteq> js_String (data_field data k) \<Longrightarrow>
   (k, JObject [(''old'', current_field current k), (''new'', data_field data k)])
     \<in> set (diff_loop current data fs acc)"
proof (induction fs arbitrary: acc)
  case Nil
  then show ?case by simp
next
  case (Cons f fs)
  show ?case
  proof (cases "f = k")
    case True
    have "(k, JObject [(''old'', current_field current k), (''new'', data_field data k)])
        \<in> set (set_key k (JObject [(''old'', current_field current k),
                                   (''new'', data_field data k)]) acc)"
      by (rule set_key_same)
    from diff_loop_keeps [OF this refl, of fs] True Cons.prems(2,3) show ?thesis
      by (simp add: Let_def)
  next
    case False
    with Cons.prems have "k \<in> set fs" by simp
    from Cons.IH [OF this Cons.prems(2,3)] show ?thesis by simp
  qed
qed

lemma diff_loop_keys:
  "fst ` set (diff_loop current data fs acc) \<subseteq> fst ` set acc \<union> set fs"
proof
  fix k assume "k \<in> fst ` set (diff_loop current data fs acc)"
  then obtain v where "(k, v) \<in> set (diff_loop current data fs acc)" by auto
  from diff_loop_entries [OF this] show "k \<in> fst ` set acc \<union> set fs" by force
qed

lemma TaskStatus_name_inj: "TaskStatus_name a = TaskStatus_name b \<longleftrightarrow> a = b"
  by (cases a; cases b) simp_all

section \<open>Task updates\<close>

text \<open>
  Claim C3 at request bodies that carry \<open>completedAt\<close> and no \<open>status\<close>. Task \<open>t2\<close> is
  \<open>DONE\<close> and was completed at 5000; the body \<open>{ completedAt: null }\<close> makes no status
  transition, and the update clears the stored \<open>completedAt\<close> while the task stays \<open>DONE\<close>.
  Task \<open>t1\<close> is \<open>TODO\<close> and not completed; the body
  \<open>{ completedAt: '1970-01-01T00:00:07.000Z' }\<close> stores that instant as its
  \<open>completedAt\<close> while the task stays \<open>TODO\<close>. Neither update writes an audit record.
\<close>

theorem completedAt_rewritten_without_transition:
  "task_status ex_t2 = DONE \<and> task_completedAt ex_t2 = Some 5000 \<and>
   u_status (no_patch\<lparr>u_completedAt := Some None\<rparr>) = None \<and>
   TaskService_update ex_env None ''t2'' (no_patch\<lparr>u_completedAt := Some None\<rparr>) ''um'' ex_db
     = (ex_db\<lparr>tasks := [ex_t1, ex_t2\<lparr>task_completedAt := None, task_updatedAt := 9000\<rparr>]\<rparr>,
        Inr (ex_t2\<lparr>task_completedAt := None, task_updatedAt := 9000\<rparr>)) \<and>
   task_status ex_t1 = TODO \<and> task_completedAt ex_t1 = None \<and>
   TaskService_update ex_env None ''t1''
       (no_patch\<lparr>u_completedAt := Some (Some (DateStr ''1970-01-01T00:00:07.000Z''))\<rparr>)
       ''um'' ex_db
     = (ex_db\<lparr>tasks := [ex_t1\<lparr>task_completedAt := Some 7000, task_updatedAt := 9000\<rparr>, ex_t2]\<rparr>,
        Inr (ex_t1\<lparr>task_completedAt := Some 7000, task_updatedAt := 9000\<rparr>))"
  by (simp add: update_defs store_defs tx_defs ex_defs)

text \<open>
  The \<open>completedAt\<close> of the task a successful \<open>TaskService.update\<close> returns: the current
  time when the patch's status is \<open>DONE\<close> and the current status is not, whatever else
  the patch carries; \<open>null\<close> when the patch's status is not \<open>DONE\<close> and the current
  status is; and the old value in every other case, provided the patch carries no
  \<open>completedAt\<close> of its own. The returned task is the stored row when the patch carries
  no \<open>id\<close>.
\<close>

theorem task_update_completedAt:
  assumes "TaskService_update ev flt i data actorId d = (d', Inr task)"
    and "TaskRepository_findById d i = Some current"
  shows "(u_status data = Some DONE \<and> task_status current \<noteq> DONE
        \<longrightarrow> task_completedAt task = Some (now ev)) \<and>
     ((\<exists>s. u_status data = Some s \<and> s \<noteq> DONE) \<and> task_status current = DONE
        \<longrightarrow> task_completedAt task = None) \<and>
     (\<not> (u_status data = Some DONE \<and> task_status current \<noteq> DONE) \<and>
      \<not> ((\<exists>s. u_status data = Some s \<and> s \<noteq> DONE) \<and> task_status current = DONE) \<and>
      u_completedAt data = None
        \<longrightarrow> task_completedAt task = task_completedAt current) \<and>
     (u_id data = None \<longrightarrow> TaskRepository_findById d' i = Some task)"
  using TaskService_update_completedAt [OF assms] TaskService_update_stored [OF assms(1)]
  by auto

theorem task_update_completedAt_witness:
  "TaskRepository_findById ex_db ''t1'' = Some ex_t1 \<and>
   snd (TaskService_update ex_env None ''t1'' (no_patch\<lparr>u_status := Some DONE\<rparr>) ''um'' ex_db)
     = Inr (ex_t1\<lparr>task_status := DONE, task_completedAt := Some 9000,
                  task_updatedAt := 9000\<rparr>) \<and>
   TaskRepository_findById
     (fst (TaskService_update ex_env None ''t1'' (no_patch\<lparr>u_status := Some DONE\<rparr>) ''um'' ex_db))
     ''t1'' = Some (ex_t1\<lparr>task_status := DONE, task_completedAt := Some 9000,
                          task_updatedAt := 9000\<rparr>) \<and>
   task_completedAt (ex_t1\<lparr>task_status := DONE, task_completedAt := Some 9000,
                          task_updatedAt := 9000\<rparr>) = Some (now ex_env)"
proof -
  obtain d' r where run:
    "TaskService_update ex_env None ''t1'' (no_patch\<lparr>u_status := Some DONE\<rparr>) ''um'' ex_db = (d', r)"
    by (cases "TaskService_update ex_env None ''t1'' (no_patch\<lparr>u_status := Some DONE\<rparr>) ''um'' ex_db")
  have r: "r = Inr (ex_t1\<lparr>task_status := DONE, task_completedAt := Some 9000,
                         task_updatedAt := 9000\<rparr>)"
    using run by (simp add: update_defs store_defs tx_defs ex_defs)
  have found: "TaskRepository_findById ex_db ''t1'' = Some ex_t1"
    by (simp add: store_defs ex_defs)
  have noid: "u_id (no_patch\<lparr>u_status := Some DONE\<rparr>) = None" by (simp add: no_patch_def)
  from task_update_completedAt [OF run [unfolded r] found] run r found noid show ?thesis
    by (simp add: ex_env_def)
qed

text \<open>
  Claim C10, as amended. A successful \<open>TaskService.update\<close> whose patch carries no property
  beyond the six of \<open>UpdateTaskData\<close> leaves the task's \<open>id\<close>, \<open>projectId\<close>,
  \<open>reporterId\<close> and \<open>createdAt\<close> as they were: the stored row is the old row with at most
  \<open>title\<close>, \<open>description\<close>, \<open>status\<close>, \<open>priority\<close>, \<open>dueDate\<close>, \<open>assigneeId\<close>,
  \<open>completedAt\<close> and \<open>updatedAt\<close>, the column the store maintains, replaced.
\<close>

theorem task_update_frame:
  assumes "TaskService_update ev flt i data actorId d = (d', Inr task)"
    and "TaskRepository_findById d i = Some current"
    and "declared_only data"
  shows "TaskRepository_findById d' i = Some task \<and>
     task_id task = task_id current \<and>
     task_projectId task = task_projectId current \<and>
     task_reporterId task = task_reporterId current \<and>
     task_createdAt task = task_createdAt current \<and>
     task = current\<lparr>task_title := task_title task, task_description := task_description task,
                    task_status := task_status task, task_priority := task_priority task,
                    task_dueDate := task_dueDate task, task_assigneeId := task_assigneeId task,
                    task_completedAt := task_completedAt task,
                    task_updatedAt := task_updatedAt task\<rparr>"
proof -
  from TaskService_update_success [OF assms(1)] assms(2)
  have t: "task = prisma_task_data ev (updateData ev current data) current" by auto
  from assms(3) have noid: "u_id data = None" by (simp add: declared_only_def)
  show ?thesis
    using TaskService_update_stored [OF assms(1) noid] assms(3)
    unfolding t
    by (simp add: prisma_task_data_def declared_only_def updateData_others stored_date_def)
qed

theorem task_update_frame_witness:
  "TaskRepository_findById ex_db ''t2'' = Some ex_t2 \<and>
   declared_only (no_patch\<lparr>u_title := Some ''Ship it'', u_status := Some IN_PROGRESS\<rparr>) \<and>
   snd (TaskService_update ex_env None ''t2''
          (no_patch\<lparr>u_title := Some ''Ship it'', u_status := Some IN_PROGRESS\<rparr>) ''um'' ex_db)
     = Inr (ex_t2\<lparr>task_title := ''Ship it'', task_status := IN_PROGRESS,
                  task_completedAt := None, task_updatedAt := 9000\<rparr>) \<and>
   task_projectId (ex_t2\<lparr>task_title := ''Ship it'', task_status := IN_PROGRESS,
                        task_completedAt := None, task_updatedAt := 9000\<rparr>)
     = task_projectId ex_t2 \<and>
   task_reporterId (ex_t2\<lparr>task_title := ''Ship it'', task_status := IN_PROGRESS,
                         task_completedAt := None, task_updatedAt := 9000\<rparr>)
     = task_reporterId ex_t2 \<and>
   task_createdAt (ex_t2\<lparr>task_title := ''Ship it'', task_status := IN_PROGRESS,
                        task_completedAt := None, task_updatedAt := 9000\<rparr>)
     = task_createdAt ex_t2"
proof -
  let ?patch = "no_patch\<lparr>u_title := Some ''Ship it'', u_status := Some IN_PROGRESS\<rparr>"
  obtain d' r where run: "TaskService_update ex_env None ''t2'' ?patch ''um'' ex_db = (d', r)"
    by (cases "TaskService_update ex_env None ''t2'' ?patch ''um'' ex_db")
  have r: "r = Inr (ex_t2\<lparr>task_title := ''Ship it'', task_status := IN_PROGRESS,
                         task_completedAt := None, task_updatedAt := 9000\<rparr>)"
    using run by (simp add: update_defs store_defs tx_defs ex_defs)
  have found: "TaskRepository_findById ex_db ''t2'' = Some ex_t2"
    by (simp add: store_defs ex_defs)
  have decl: "declared_only ?patch" by (simp add: declared_only_def no_patch_def)
  let ?t = "ex_t2\<lparr>task_title := ''Ship it'', task_status := IN_PROGRESS,
                  task_completedAt := None, task_updatedAt := 9000\<rparr>"
  from task_update_frame [OF run [unfolded r] found decl]
  have "task_projectId ?t = task_projectId ex_t2 \<and>
        task_reporterId ?t = task_reporterId ex_t2 \<and>
        task_createdAt ?t = task_createdAt ex_t2"
    by blast
  moreover from run r have "snd (TaskService_update ex_env None ''t2'' ?patch ''um'' ex_db) = Inr ?t"
    by simp
  ultimately show ?thesis using found decl by blast
qed

theorem task_update_updatedAt_counterexample:
  "TaskRepository_findById ex_db ''t1'' = Some ex_t1 \<and>
   declared_only (no_patch\<lparr>u_title := Some ''Plan B''\<rparr>) \<and>
   TaskService_update ex_env None ''t1'' (no_patch\<lparr>u_title := Some ''Plan B''\<rparr>) ''um'' ex_db
     = (ex_db\<lparr>tasks := [ex_t1\<lparr>task_title := ''Plan B'', task_updatedAt := 9000\<rparr>, ex_t2],
             auditLogs :=
               [\<lparr>audit_entityType = ''Task'', audit_entityId = ''t1'', audit_action = UPDATE,
                 audit_actorId = ''um'',
                 audit_details = [(''title'', JObject [(''old'', JString ''Plan''),
                                                      (''new'', JString ''Plan B'')])]\<rparr>]\<rparr>,
        Inr (ex_t1\<lparr>task_title := ''Plan B'', task_updatedAt := 9000\<rparr>)) \<and>
   task_updatedAt ex_t1 = 1000 \<and>
   task_updatedAt (ex_t1\<lparr>task_title := ''Plan B'', task_updatedAt := 9000\<rparr>) = 9000"
  by (simp add: update_defs store_defs tx_defs ex_defs declared_only_def)

text \<open>
  A request body that carries \<open>projectId\<close>, \<open>reporterId\<close> and \<open>createdAt\<close> next to a
  title: the update moves task \<open>t1\<close> to project \<open>p2\<close>, and rewrites its reporter and its
  time of creation.
\<close>

lemma task_update_body_columns:
  "TaskService_update ex_env None ''t1''
       (no_patch\<lparr>u_title := Some ''Plan B'', u_projectId := Some ''p2'',
                  u_reporterId := Some ''uo'',
                  u_createdAt := Some (DateStr ''1970-01-01T00:00:08.000Z'')\<rparr>) ''um'' ex_db_two
     = (ex_db_two\<lparr>tasks := [ex_t1\<lparr>task_title := ''Plan B'', task_createdAt := 8000,
                                     task_updatedAt := 9000, task_projectId := ''p2'',
                                     task_reporterId := ''uo''\<rparr>, ex_t2],
             auditLogs :=
               [\<lparr>audit_entityType = ''Task'', audit_entityId = ''t1'', audit_action = UPDATE,
                 audit_actorId = ''um'',
                 audit_details = [(''title'', JObject [(''old'', JString ''Plan''),
                                                      (''new'', JString ''Plan B'')])]\<rparr>]\<rparr>,
        Inr (ex_t1\<lparr>task_title := ''Plan B'', task_createdAt := 8000, task_updatedAt := 9000,
                   task_projectId := ''p2'', task_reporterId := ''uo''\<rparr>))"
  by (simp add: update_defs store_defs tx_defs ex_defs)

text \<open>
  Claim C4, as amended. A successful \<open>TaskService.update\<close> appends at most one audit record,
  and its details are the diff over exactly the six patch fields \<open>title\<close>,
  \<open>description\<close>, \<open>status\<close>, \<open>priority\<close>, \<open>assigneeId\<close> and \<open>dueDate\<close>: one entry, in
  that order, for each of the six that the patch supplies with a value whose text differs
  from the text of the current value, holding the current value as \<open>old\<close> and the patch's
  value as \<open>new\<close>; no record when there is no such field. A status that changes is in the
  details with its old and new value. \<open>completedAt\<close> is never a key of the details,
  although a transition into \<open>DONE\<close> sets the stored \<open>completedAt\<close> to the current time
  and a transition out of \<open>DONE\<close> clears it.
\<close>

theorem task_update_audit_details:
  assumes "TaskService_update ev flt i data actorId d = (d', Inr task)"
    and "TaskRepository_findById d i = Some current"
  shows "(let diff =
            map (\<lambda>k. (k, JObject [(''old'', current_field current k),
                                   (''new'', data_field data k)]))
              (filter (\<lambda>k. data_field data k \<noteq> JUndefined \<and>
                            js_String (current_field current k) \<noteq> js_String (data_field data k))
                 [''title'', ''description'', ''status'', ''priority'', ''assigneeId'',
                  ''dueDate''])
          in auditLogs d' = auditLogs d @
               (if diff = [] then []
                else [\<lparr>audit_entityType = ''Task'', audit_entityId = i, audit_action = UPDATE,
                       audit_actorId = actorId, audit_details = diff\<rparr>]) \<and>
             fst ` set diff \<subseteq>
               {''title'', ''description'', ''status'', ''priority'', ''assigneeId'', ''dueDate''} \<and>
             ''completedAt'' \<notin> fst ` set diff \<and>
             (\<forall>s. u_status data = Some s \<and> s \<noteq> task_status current \<longrightarrow>
                (''status'', JObject [(''old'', JString (TaskStatus_name (task_status current))),
                                      (''new'', JString (TaskStatus_name s))]) \<in> set diff)) \<and>
         (u_status data = Some DONE \<and> task_status current \<noteq> DONE
            \<longrightarrow> task_completedAt task = Some (now ev)) \<and>
         ((\<exists>s. u_status data = Some s \<and> s \<noteq> DONE) \<and> task_status current = DONE
            \<longrightarrow> task_completedAt task = None)"
proof -
  let ?six = "[''title'', ''description'', ''status'', ''priority'', ''assigneeId'', ''dueDate'']"
  let ?diff = "map (\<lambda>k. (k, JObject [(''old'', current_field current k),
                                   (''new'', data_field data k)]))
              (filter (\<lambda>k. data_field data k \<noteq> JUndefined \<and>
                            js_String (current_field current k) \<noteq> js_String (data_field data k))
                 ?six)"
  have eq: "diff_loop current data fieldsToCheck [] = ?diff"
    using diff_loop_eq [of fieldsToCheck "[]" current data] by (simp add: fieldsToCheck_def)
  have keys: "fst ` set ?diff \<subseteq>
      {''title'', ''description'', ''status'', ''priority'', ''assigneeId'', ''dueDate''}"
    using diff_loop_keys [of current data fieldsToCheck "[]"] unfolding eq
    by (simp add: fieldsToCheck_def)
  then have no: "''completedAt'' \<notin> fst ` set ?diff" by auto
  have st: "(''status'', JObject [(''old'', JString (TaskStatus_name (task_status current))),
                                  (''new'', JString (TaskStatus_name s))]) \<in> set ?diff"
    if "u_status data = Some s" and "s \<noteq> task_status current" for s
  proof -
    have m: "''status'' \<in> set fieldsToCheck" by (simp add: fieldsToCheck_def)
    have c: "current_field current ''status'' = JString (TaskStatus_name (task_status current))"
      by (simp add: current_field_def json_status_def)
    have n: "data_field data ''status'' = JString (TaskStatus_name s)"
      using that by (simp add: data_field_def json_field_def json_status_def)
    from diff_loop_records [OF m, of data current "[]"] that show ?thesis
      unfolding c n eq by (simp add: TaskStatus_name_inj)
  qed
  have log: "auditLogs d' = auditLogs d @
               (if ?diff = [] then []
                else [\<lparr>audit_entityType = ''Task'', audit_entityId = i, audit_action = UPDATE,
                       audit_actorId = actorId, audit_details = ?diff\<rparr>])"
    using TaskService_update_audit [OF assms] unfolding eq .
  have c1: "u_status data = Some DONE \<and> task_status current \<noteq> DONE
            \<longrightarrow> task_completedAt task = Some (now ev)"
    and c2: "(\<exists>s. u_status data = Some s \<and> s \<noteq> DONE) \<and> task_status current = DONE
            \<longrightarrow> task_completedAt task = None"
    using TaskService_update_completedAt [OF assms] by auto
  from log keys no st c1 c2 show ?thesis
    unfolding Let_def by blast
qed

theorem task_update_audit_details_witness:
  "TaskRepository_findById ex_db ''t1'' = Some ex_t1 \<and>
   snd (TaskService_update ex_env None ''t1''
          (no_patch\<lparr>u_title := Some ''Plan B'', u_status := Some DONE\<rparr>) ''um'' ex_db)
     = Inr (ex_t1\<lparr>task_title := ''Plan B'', task_status := DONE,
                  task_completedAt := Some 9000, task_updatedAt := 9000\<rparr>) \<and>
   auditLogs (fst (TaskService_update ex_env None ''t1''
                     (no_patch\<lparr>u_title := Some ''Plan B'', u_status := Some DONE\<rparr>) ''um'' ex_db))
     = [\<lparr>audit_entityType = ''Task'', audit_entityId = ''t1'', audit_action = UPDATE,
         audit_actorId = ''um'',
         audit_details = [(''title'', JObject [(''old'', JString ''Plan''),
                                               (''new'', JString ''Plan B'')]),
                          (''status'', JObject [(''old'', JString ''TODO''),
                                                (''new'', JString ''DONE'')])]\<rparr>] \<and>
   task_completedAt (ex_t1\<lparr>task_title := ''Plan B'', task_status := DONE,
                          task_completedAt := Some 9000, task_updatedAt := 9000\<rparr>)
     = Some (now ex_env)"
proof -
  let ?patch = "no_patch\<lparr>u_title := Some ''Plan B'', u_status := Some DONE\<rparr>"
  let ?t = "ex_t1\<lparr>task_title := ''Plan B'', task_status := DONE,
                  task_completedAt := Some 9000, task_updatedAt := 9000\<rparr>"
  obtain d' r where run: "TaskService_update ex_env None ''t1'' ?patch ''um'' ex_db = (d', r)"
    by (cases "TaskService_update ex_env None ''t1'' ?patch ''um'' ex_db")
  have r: "r = Inr ?t"
    using run by (simp add: update_defs store_defs tx_defs ex_defs)
  have found: "TaskRepository_findById ex_db ''t1'' = Some ex_t1"
    by (simp add: store_defs ex_defs)
  have st: "u_status ?patch = Some DONE" "task_status ex_t1 = TODO"
    by (simp_all add: no_patch_def ex_t1_def)
  have diff: "map (\<lambda>k. (k, JObject [(''old'', current_field ex_t1 k),
                                   (''new'', data_field ?patch k)]))
              (filter (\<lambda>k. data_field ?patch k \<noteq> JUndefined \<and>
                            js_String (current_field ex_t1 k) \<noteq> js_String (data_field ?patch k))
                 [''title'', ''description'', ''status'', ''priority'', ''assigneeId'',
                  ''dueDate''])
      = [(''title'', JObject [(''old'', JString ''Plan''), (''new'', JString ''Plan B'')]),
         (''status'', JObject [(''old'', JString ''TODO''), (''new'', JString ''DONE'')])]"
    by (simp add: ex_defs data_field_def current_field_def json_field_def json_opt_def
        json_status_def)
  note details = task_update_audit_details [OF run [unfolded r] found, unfolded Let_def diff]
  from details run r found st show ?thesis
    by (simp add: ex_db_def ex_env_def)
qed

theorem task_update_audit_completedAt_counterexample:
  "task_completedAt ex_t2 = Some 5000 \<and>
   TaskService_update ex_env None ''t2'' (no_patch\<lparr>u_status := Some TODO\<rparr>) ''um'' ex_db =
     (ex_db\<lparr>tasks := [ex_t1, ex_t2\<lparr>task_status := TODO, task_completedAt := None,
                                   task_updatedAt := 9000\<rparr>],
            auditLogs :=
              [\<lparr>audit_entityType = ''Task'', audit_entityId = ''t2'', audit_action = UPDATE,
                audit_actorId = ''um'',
                audit_details = [(''status'', JObject [(''old'', JString ''DONE''),
                                                       (''new'', JString ''TODO'')])]\<rparr>]\<rparr>,
      Inr (ex_t2\<lparr>task_status := TODO, task_completedAt := None, task_updatedAt := 9000\<rparr>))"
  by (simp add: update_defs store_defs tx_defs ex_defs)

section \<open>Task creation\<close>

lemma TaskService_create_success:
  assumes "TaskService_create ev flt data actorId d = (d', Inr task)"
  shows "validateAssignee d (c_projectId data) (c_assigneeId data) = Inr () \<and>
         task_reporterId task = actorId \<and> task_id task = newId ev \<and>
         task_projectId task = c_projectId data \<and>
         d' = d\<lparr>tasks := tasks d @ [task],
                auditLogs := auditLogs d @
                  [\<lparr>audit_entityType = ''Task'', audit_entityId = task_id task,
                    audit_action = CREATE, audit_actorId = actorId,
                    audit_details =
                      [(''title'', JString (c_title data)),
                       (''description'', json_field JString (c_description data)),
                       (''priority'', json_field JString (c_priority data)),
                       (''dueDate'', json_field json_dateval (c_dueDate data)),
                       (''projectId'', JString (c_projectId data)),
                       (''assigneeId'', json_field (json_opt JString) (c_assigneeId data))]\<rparr>]\<rparr>"
proof (cases "validateAssignee d (c_projectId data) (c_assigneeId data)")
  case (Inl e)
  with assms show ?thesis by (simp add: TaskService_create_def)
next
  case (Inr u)
  from assms Inr have tx: "transaction flt
       (tx_bind
          (tx_stmt (prisma_task_create ev (c_dueDate data)
             \<lparr>task_id = newId ev, task_title = c_title data,
              task_description = c_description data, task_status = defaultStatus ev,
              task_priority = c_priority data,
              task_dueDate = stored_date ev (c_dueDate data), task_completedAt = None,
              task_createdAt = now ev, task_updatedAt = now ev,
              task_projectId = c_projectId data,
              task_assigneeId = nullable (c_assigneeId data), task_reporterId = actorId\<rparr>))
          (\<lambda>task. tx_bind
               (AuditRepository_create ''Task'' (task_id task) CREATE actorId
                  [(''title'', JString (c_title data)),
                   (''description'', json_field JString (c_description data)),
                   (''priority'', json_field JString (c_priority data)),
                   (''dueDate'', json_field json_dateval (c_dueDate data)),
                   (''projectId'', JString (c_projectId data)),
                   (''assigneeId'', json_field (json_opt JString) (c_assigneeId data))])
               (\<lambda>_. tx_return task)))
       d = (d', Inr task)"
    by (simp add: TaskService_create_def)
  from tx_write_then_audit [OF tx] obtain d1 where
    q: "prisma_task_create ev (c_dueDate data)
          \<lparr>task_id = newId ev, task_title = c_title data,
           task_description = c_description data, task_status = defaultStatus ev,
           task_priority = c_priority data,
           task_dueDate = stored_date ev (c_dueDate data), task_completedAt = None,
           task_createdAt = now ev, task_updatedAt = now ev,
           task_projectId = c_projectId data,
           task_assigneeId = nullable (c_assigneeId data), task_reporterId = actorId\<rparr> d
        = (Inr task, d1)"
    and d': "d' = d1\<lparr>auditLogs := auditLogs d1 @
               [\<lparr>audit_entityType = ''Task'', audit_entityId = task_id task,
                 audit_action = CREATE, audit_actorId = actorId,
                 audit_details =
                   [(''title'', JString (c_title data)),
                    (''description'', json_field JString (c_description data)),
                    (''priority'', json_field JString (c_priority data)),
                    (''dueDate'', json_field json_dateval (c_dueDate data)),
                    (''projectId'', JString (c_projectId data)),
                    (''assigneeId'', json_field (json_opt JString) (c_assigneeId data))]\<rparr>]\<rparr>"
    by blast
  from q have "task_reporterId task = actorId \<and> task_id task = newId ev \<and>
      task_projectId task = c_projectId data \<and> d1 = d\<lparr>tasks := tasks d @ [task]\<rparr>"
    by (auto simp: prisma_task_create_def task_create_def split: if_splits)
  with d' Inr show ?thesis by auto
qed

lemma TaskService_create_error:
  assumes "TaskService_create ev flt data actorId d = (d', Inl e)"
  shows "d' = d"
  using assms transaction_error_unchanged
  unfolding TaskService_create_def
  by (fastforce split: sum.splits)

text \<open>
  Claim C8. The task a successful \<open>TaskService.create\<close> returns and stores has the caller's
  \<open>actorId\<close> as its \<open>reporterId\<close>, whatever further properties (a \<open>reporterId\<close> among
  them) the submitted object carries.
\<close>

theorem task_create_reporter:
  fixes data :: "'a CreateTaskData_scheme"
  assumes "TaskService_create ev flt data actorId d = (d', Inr task)"
  shows "task_reporterId task = actorId \<and> tasks d' = tasks d @ [task]"
  using TaskService_create_success [OF assms] by auto

theorem task_create_reporter_witness:
  "snd (TaskService_create ex_env None
          \<lparr>c_title = ''Test'', c_description = None, c_priority = None, c_dueDate = None,
           c_projectId = ''p1'', c_assigneeId = Some (Some ''um''), x_reporterId = ''uo''\<rparr>
          ''uv'' ex_db)
     = Inr \<lparr>task_id = ''n1'', task_title = ''Test'', task_description = None,
            task_status = TODO, task_priority = None, task_dueDate = None,
            task_completedAt = None, task_createdAt = 9000, task_updatedAt = 9000,
            task_projectId = ''p1'', task_assigneeId = Some ''um'', task_reporterId = ''uv''\<rparr> \<and>
   map task_reporterId
     (tasks (fst (TaskService_create ex_env None
          \<lparr>c_title = ''Test'', c_description = None, c_priority = None, c_dueDate = None,
           c_projectId = ''p1'', c_assigneeId = Some (Some ''um''), x_reporterId = ''uo''\<rparr>
          ''uv'' ex_db)))
     = [''um'', ''um'', ''uv'']"
proof -
  let ?data = "\<lparr>c_title = ''Test'', c_description = None, c_priority = None, c_dueDate = None,
           c_projectId = ''p1'', c_assigneeId = Some (Some ''um''), x_reporterId = ''uo''\<rparr>"
  let ?task = "\<lparr>task_id = ''n1'', task_title = ''Test'', task_description = None,
            task_status = TODO, task_priority = None, task_dueDate = None,
            task_completedAt = None, task_createdAt = 9000, task_updatedAt = 9000,
            task_projectId = ''p1'', task_assigneeId = Some ''um'', task_reporterId = ''uv''\<rparr>"
  obtain d' r where run: "TaskService_create ex_env None ?data ''uv'' ex_db = (d', r)"
    by (cases "TaskService_create ex_env None ?data ''uv'' ex_db")
  have r: "r = Inr ?task"
    using run
    by (simp add: TaskService_create_def validateAssignee_def store_defs tx_defs ex_defs
        nullable_def)
  from task_create_reporter [OF run [unfolded r]] run r show ?thesis
    by (simp add: ex_defs)
qed

section \<open>Assignee validation\<close>

lemma validateAssignee_cases:
  assumes "a \<noteq> []"
  shows "validateAssignee d p (Some (Some a)) =
     (case getUserProjectRole d p a of
        Some ProjectRole_MEMBER \<Rightarrow> Inr ()
      | Some ProjectRole_VIEWER \<Rightarrow>
          Inl (AppError_badRequest
                 ''Cannot assign tasks to view-only users. Viewers have read-only access.''
                 ErrorCodes_TASK_VIEWER_CANNOT_BE_ASSIGNED
                 [(''assigneeId'', JString a), (''projectRole'', JString ''VIEWER'')])
      | None \<Rightarrow>
          (case user_findUnique d a of
             None \<Rightarrow>
               Inl (AppError_badRequest ''Assignee not found''
                      ErrorCodes_TASK_ASSIGNEE_NOT_FOUND [(''assigneeId'', JString a)])
           | Some u \<Rightarrow>
               if user_role u = ADMIN then Inr ()
               else Inl (AppError_badRequest ''Assignee is not a member of this project''
                           ErrorCodes_TASK_ASSIGNEE_NOT_IN_PROJECT
                           [(''assigneeId'', JString a), (''projectId'', JString p)])))"
  using assms
  by (simp add: validateAssignee_def json_role_def split: option.splits ProjectRole.splits)

text \<open>
  Claim C2, as amended. For a non-empty \<open>assigneeId\<close>, validation succeeds exactly when the
  assignee holds the project role \<open>MEMBER\<close>, or holds no row in the project and is a global
  \<open>ADMIN\<close>. It fails with \<open>ASSIGNEE_NOT_FOUND\<close> when there is neither a row nor a user,
  with \<open>ASSIGNEE_NOT_IN_PROJECT\<close> when there is no row and the user is not \<open>ADMIN\<close>, and with
  \<open>VIEWER_CANNOT_BE_ASSIGNED\<close> when the row's role is \<open>VIEWER\<close> (a global \<open>ADMIN\<close>
  included); the three codes differ. \<open>create\<close> and \<open>update\<close> return the error and leave the
  store as it was.
\<close>

theorem assignee_validation:
  fixes data :: "'a CreateTaskData_scheme"
  assumes "a \<noteq> []"
  shows
    "(validateAssignee d p (Some (Some a)) = Inr () \<longleftrightarrow>
        getUserProjectRole d p a = Some ProjectRole_MEMBER \<or>
        (getUserProjectRole d p a = None \<and>
         map_option user_role (user_findUnique d a) = Some ADMIN)) \<and>
     (getUserProjectRole d p a = None \<and> user_findUnique d a = None \<longrightarrow>
        (\<exists>e. validateAssignee d p (Some (Some a)) = Inl e \<and>
             code e = Some ErrorCodes_TASK_ASSIGNEE_NOT_FOUND)) \<and>
     (getUserProjectRole d p a = None \<and>
      (\<exists>u. user_findUnique d a = Some u \<and> user_role u \<noteq> ADMIN) \<longrightarrow>
        (\<exists>e. validateAssignee d p (Some (Some a)) = Inl e \<and>
             code e = Some ErrorCodes_TASK_ASSIGNEE_NOT_IN_PROJECT)) \<and>
     (getUserProjectRole d p a = Some ProjectRole_VIEWER \<longrightarrow>
        (\<exists>e. validateAssignee d p (Some (Some a)) = Inl e \<and>
             code e = Some ErrorCodes_TASK_VIEWER_CANNOT_BE_ASSIGNED)) \<and>
     distinct [ErrorCodes_TASK_ASSIGNEE_NOT_FOUND, ErrorCodes_TASK_ASSIGNEE_NOT_IN_PROJECT,
               ErrorCodes_TASK_VIEWER_CANNOT_BE_ASSIGNED] \<and>
     (\<forall>e. c_assigneeId data = Some (Some a) \<and>
          validateAssignee d (c_projectId data) (Some (Some a)) = Inl e \<longrightarrow>
          TaskService_create ev flt data actorId d = (d, Inl e)) \<and>
     (\<forall>e current. TaskRepository_findById d i = Some current \<and>
          u_assigneeId patch = Some (Some a) \<and>
          validateAssignee d (task_projectId current) (Some (Some a)) = Inl e \<longrightarrow>
          TaskService_update ev flt i patch actorId d = (d, Inl e))"
proof -
  note v = validateAssignee_cases [OF assms, of d p]
  have 1: "validateAssignee d p (Some (Some a)) = Inr () \<longleftrightarrow>
        getUserProjectRole d p a = Some ProjectRole_MEMBER \<or>
        (getUserProjectRole d p a = None \<and>
         map_option user_role (user_findUnique d a) = Some ADMIN)"
    unfolding v by (auto split: option.splits ProjectRole.splits)
  have 2: "getUserProjectRole d p a = None \<and> user_findUnique d a = None \<longrightarrow>
        (\<exists>e. validateAssignee d p (Some (Some a)) = Inl e \<and>
             code e = Some ErrorCodes_TASK_ASSIGNEE_NOT_FOUND)"
    unfolding v by (simp add: AppError_badRequest_def)
  have 3: "getUserProjectRole d p a = None \<and>
      (\<exists>u. user_findUnique d a = Some u \<and> user_role u \<noteq> ADMIN) \<longrightarrow>
        (\<exists>e. validateAssignee d p (Some (Some a)) = Inl e \<and>
             code e = Some ErrorCodes_TASK_ASSIGNEE_NOT_IN_PROJECT)"
    unfolding v by (auto simp: AppError_badRequest_def)
  have 4: "getUserProjectRole d p a = Some ProjectRole_VIEWER \<longrightarrow>
        (\<exists>e. validateAssignee d p (Some (Some a)) = Inl e \<and>
             code e = Some ErrorCodes_TASK_VIEWER_CANNOT_BE_ASSIGNED)"
    unfolding v by (simp add: AppError_badRequest_def)
  have 5: "distinct [ErrorCodes_TASK_ASSIGNEE_NOT_FOUND, ErrorCodes_TASK_ASSIGNEE_NOT_IN_PROJECT,
               ErrorCodes_TASK_VIEWER_CANNOT_BE_ASSIGNED]"
    by (simp add: ErrorCodes_TASK_ASSIGNEE_NOT_FOUND_def
        ErrorCodes_TASK_ASSIGNEE_NOT_IN_PROJECT_def ErrorCodes_TASK_VIEWER_CANNOT_BE_ASSIGNED_def)
  have 6: "\<forall>e. c_assigneeId data = Some (Some a) \<and>
          validateAssignee d (c_projectId data) (Some (Some a)) = Inl e \<longrightarrow>
          TaskService_create ev flt data actorId d = (d, Inl e)"
    by (simp add: TaskService_create_def)
  have 7: "\<forall>e current. TaskRepository_findById d i = Some current \<and>
          u_assigneeId patch = Some (Some a) \<and>
          validateAssignee d (task_projectId current) (Some (Some a)) = Inl e \<longrightarrow>
          TaskService_update ev flt i patch actorId d = (d, Inl e)"
    by (simp add: TaskService_update_def)
  from 1 2 3 4 5 6 7 show ?thesis by blast
qed

theorem assignee_validation_witness:
  "''uv'' \<noteq> [] \<and>
   getUserProjectRole ex_db ''p1'' ''uv'' = Some ProjectRole_VIEWER \<and>
   TaskService_create ex_env None
      \<lparr>c_title = ''Test'', c_description = None, c_priority = None, c_dueDate = None,
       c_projectId = ''p1'', c_assigneeId = Some (Some ''uv'')\<rparr> ''um'' ex_db
     = (ex_db, Inl (AppError_badRequest
                 ''Cannot assign tasks to view-only users. Viewers have read-only access.''
                 ErrorCodes_TASK_VIEWER_CANNOT_BE_ASSIGNED
                 [(''assigneeId'', JString ''uv''), (''projectRole'', JString ''VIEWER'')])) \<and>
   TaskService_update ex_env None ''t1'' (no_patch\<lparr>u_assigneeId := Some (Some ''uv'')\<rparr>) ''um'' ex_db
     = (ex_db, Inl (AppError_badRequest
                 ''Cannot assign tasks to view-only users. Viewers have read-only access.''
                 ErrorCodes_TASK_VIEWER_CANNOT_BE_ASSIGNED
                 [(''assigneeId'', JString ''uv''), (''projectRole'', JString ''VIEWER'')])) \<and>
   validateAssignee ex_db ''p1'' (Some (Some ''uv'')) \<noteq> Inr ()"
proof -
  have ne: "''uv'' \<noteq> []" by simp
  have role: "getUserProjectRole ex_db ''p1'' ''uv'' = Some ProjectRole_VIEWER"
    by (simp add: store_defs ex_defs)
  have v: "validateAssignee ex_db ''p1'' (Some (Some ''uv'')) =
      Inl (AppError_badRequest
                 ''Cannot assign tasks to view-only users. Viewers have read-only access.''
                 ErrorCodes_TASK_VIEWER_CANNOT_BE_ASSIGNED
                 [(''assigneeId'', JString ''uv''), (''projectRole'', JString ''VIEWER'')])"
    by (simp add: validateAssignee_cases role)
  have found: "TaskRepository_findById ex_db ''t1'' = Some ex_t1"
    by (simp add: store_defs ex_defs)
  have p: "task_projectId ex_t1 = ''p1''" by (simp add: ex_t1_def)
  from assignee_validation [OF ne, of ex_db "''p1''"
      "\<lparr>c_title = ''Test'', c_description = None, c_priority = None, c_dueDate = None,
       c_projectId = ''p1'', c_assigneeId = Some (Some ''uv'')\<rparr>" ex_env None "''um''" "''t1''"
      "no_patch\<lparr>u_assigneeId := Some (Some ''uv'')\<rparr>"]
    role v found p
  show ?thesis by (simp add: no_patch_def)
qed

theorem assignee_admin_viewer_counterexample:
  "map_option user_role (user_findUnique ex_db ''ua'') = Some ADMIN \<and>
   TaskService_create ex_env None
      \<lparr>c_title = ''Test'', c_description = None, c_priority = None, c_dueDate = None,
       c_projectId = ''p1'', c_assigneeId = Some (Some ''ua'')\<rparr> ''um'' ex_db
     = (ex_db, Inl (AppError_badRequest
                 ''Cannot assign tasks to view-only users. Viewers have read-only access.''
                 ErrorCodes_TASK_VIEWER_CANNOT_BE_ASSIGNED
                 [(''assigneeId'', JString ''ua''), (''projectRole'', JString ''VIEWER'')]))"
  by (simp add: TaskService_create_def validateAssignee_def store_defs ex_defs json_role_def)

section \<open>Updates that change nothing\<close>

lemma project_id_prisma_project_data [simp]:
  "project_id (prisma_project_data u p) = project_id p"
  by (simp add: prisma_project_data_def)

lemma ProjectService_update_success:
  assumes "ProjectService_update flt i data actorId d = (d', Inr project)"
  shows "\<exists>current. ProjectRepository_findById d i = Some current \<and>
           project = prisma_project_data data current \<and>
           d' = d\<lparr>projects := map (\<lambda>x. if project_id x = i
                                     then prisma_project_data data x else x) (projects d),
                  auditLogs :=
                    (if length (project_diff current data) > 0
                     then auditLogs d @
                       [\<lparr>audit_entityType = ''Project'', audit_entityId = i,
                         audit_action = UPDATE, audit_actorId = actorId,
                         audit_details = project_diff current data\<rparr>]
                     else auditLogs d)\<rparr>"
proof (cases "ProjectRepository_findById d i")
  case None
  with assms show ?thesis by (simp add: ProjectService_update_def)
next
  case (Some current)
  let ?diff = "project_diff current data"
  from assms Some have tx: "transaction flt
       (tx_bind (tx_stmt (project_update i (prisma_project_data data)))
          (\<lambda>updated. tx_bind
               (if length ?diff > 0
                then AuditRepository_create ''Project'' i UPDATE actorId ?diff
                else tx_return ())
               (\<lambda>_. tx_return updated)))
       d = (d', Inr project)"
    by (simp add: ProjectService_update_def Let_def)
  from tx_write_then_maybe_audit [OF tx] obtain d1 where
    q: "project_update i (prisma_project_data data) d = (Inr project, d1)"
    and d': "d' = (if length ?diff > 0 then d1\<lparr>auditLogs := auditLogs d1 @
                 [\<lparr>audit_entityType = ''Project'', audit_entityId = i, audit_action = UPDATE,
                   audit_actorId = actorId, audit_details = ?diff\<rparr>]\<rparr> else d1)"
    by blast
  from Some have f: "project_findUnique d i = Some current"
    by (simp add: ProjectRepository_findById_def)
  from q f have "project = prisma_project_data data current"
    and "d1 = d\<lparr>projects := map (\<lambda>x. if project_id x = i
                                   then prisma_project_data data x else x) (projects d)\<rparr>"
    by (auto simp: project_update_def)
  with d' Some show ?thesis by auto
qed

lemma ProjectService_update_error:
  assumes "ProjectService_update flt i data actorId d = (d', Inl e)"
  shows "d' = d"
  using assms transaction_error_unchanged
  unfolding ProjectService_update_def
  by (fastforce split: option.splits)

lemma project_diff_identical:
  "project_patch_identical current data \<Longrightarrow> project_diff current data = []"
  by (auto simp: project_patch_identical_def project_diff_def)

lemma project_diff_entries:
  assumes "(k, v) \<in> set (project_diff current data)"
  shows "(k = ''name'' \<and>
          (\<exists>n. up_name data = Some n \<and> n \<noteq> project_name current \<and>
               v = JObject [(''old'', JString (project_name current)), (''new'', JString n)])) \<or>
         (k = ''description'' \<and>
          (\<exists>x. up_description data = Some x \<and> x \<noteq> project_description current \<and>
               v = JObject [(''old'', json_opt JString (project_description current)),
                            (''new'', json_opt JString x)]))"
  using assms
  by (auto simp: project_diff_def Let_def json_field_def split: if_splits)

lemma js_String_differs: "js_String a \<noteq> js_String b \<Longrightarrow> a \<noteq> b"
  by auto


lemma identical_field:
  assumes "task_patch_identical ev current data"
    and "\<forall>s. u_dueDate data \<noteq> Some (Some (DateStr s))"
    and "k \<in> set fieldsToCheck"
  shows "data_field data k = JUndefined \<or> data_field data k = current_field current k"
proof -
  note defs = task_patch_identical_def data_field_def current_field_def json_field_def
    json_opt_def
  from assms(3) have "k = ''title'' \<or> k = ''description'' \<or> k = ''status'' \<or>
      k = ''priority'' \<or> k = ''assigneeId'' \<or> k = ''dueDate''"
    unfolding fieldsToCheck_def by simp
  then show ?thesis
  proof (elim disjE)
    assume "k = ''title''"
    with assms(1) show ?thesis by (auto simp: defs)
  next
    assume "k = ''description''"
    with assms(1) show ?thesis by (auto simp: defs)
  next
    assume "k = ''status''"
    with assms(1) show ?thesis by (auto simp: defs)
  next
    assume "k = ''priority''"
    with assms(1) show ?thesis by (auto simp: defs)
  next
    assume "k = ''assigneeId''"
    with assms(1) show ?thesis by (auto simp: defs)
  next
    assume dueDate: "k = ''dueDate''"
    show ?thesis
    proof (cases "u_dueDate data")
      case None
      with dueDate show ?thesis by (simp add: defs)
    next
      case (Some v)
      show ?thesis
      proof (cases v)
        case None
        with Some dueDate assms(1) show ?thesis
          by (simp add: defs stored_date_def nullable_def)
      next
        case (Some x)
        with \<open>u_dueDate data = Some v\<close> assms(2) obtain ms where x: "x = DateObj ms"
          by (cases x) auto
        from assms(1) Some \<open>u_dueDate data = Some v\<close> x
        have "task_dueDate current = Some ms"
          by (simp add: task_patch_identical_def stored_date_def nullable_def)
        with Some \<open>u_dueDate data = Some v\<close> x dueDate show ?thesis
          by (simp add: data_field_def current_field_def json_field_def json_opt_def)
      qed
    qed
  qed
qed

lemma diff_loop_identical:
  assumes "task_patch_identical ev current data"
    and "\<forall>s. u_dueDate data \<noteq> Some (Some (DateStr s))"
  shows "diff_loop current data fieldsToCheck [] = []"
proof (cases "diff_loop current data fieldsToCheck []")
  case Nil
  then show ?thesis .
next
  case (Cons kv rest)
  obtain k v where kv: "kv = (k, v)" by (cases kv)
  with Cons have "(k, v) \<in> set (diff_loop current data fieldsToCheck [])" by simp
  from diff_loop_entries [OF this] identical_field [OF assms, of k] show ?thesis by auto
qed

text \<open>
  Claim C5 at a patch that repeats the task's due date. Task \<open>t3\<close> is due at 7000, the
  instant the string \<open>1970-01-01T00:00:07.000Z\<close> denotes. The patch
  \<open>{ dueDate: '1970-01-01T00:00:07.000Z' }\<close> is identical to the current values and the
  update leaves every column of the task but \<open>updatedAt\<close> as it was, yet an \<open>UPDATE\<close>
  audit record with a \<open>dueDate\<close> entry is appended: the loop compares the text of the
  stored \<open>Date\<close> with the text of the string.
\<close>

theorem identical_dueDate_audited:
  "TaskRepository_findById ex_db_due ''t3'' = Some ex_t3 \<and>
   task_dueDate ex_t3 = Some 7000 \<and>
   iso ex_env ''1970-01-01T00:00:07.000Z'' = Some 7000 \<and>
   task_patch_identical ex_env ex_t3
     (no_patch\<lparr>u_dueDate := Some (Some (DateStr ''1970-01-01T00:00:07.000Z''))\<rparr>) \<and>
   auditLogs ex_db_due = [] \<and>
   TaskService_update ex_env None ''t3''
       (no_patch\<lparr>u_dueDate := Some (Some (DateStr ''1970-01-01T00:00:07.000Z''))\<rparr>)
       ''um'' ex_db_due
     = (ex_db_due\<lparr>tasks := [ex_t1, ex_t2, ex_t3\<lparr>task_updatedAt := 9000\<rparr>],
             auditLogs :=
               [\<lparr>audit_entityType = ''Task'', audit_entityId = ''t3'', audit_action = UPDATE,
                 audit_actorId = ''um'',
                 audit_details =
                   [(''dueDate'',
                     JObject [(''old'', JDate 7000),
                              (''new'', JString ''1970-01-01T00:00:07.000Z'')])]\<rparr>]\<rparr>,
        Inr (ex_t3\<lparr>task_updatedAt := 9000\<rparr>))"
  by (simp add: update_defs store_defs tx_defs ex_defs task_patch_identical_def
      declared_only_def)

text \<open>
  Updates that change nothing, apart from a due date given as a string. A
  \<open>ProjectService.update\<close> whose patch is identical to the current values appends no audit
  row, and neither does a \<open>TaskService.update\<close> whose patch is identical to the current
  values and whose \<open>dueDate\<close>, if it has one, is \<open>null\<close> or a \<open>Date\<close>; this holds
  whether the call succeeds or fails. When a successful update appends a row, it is one
  \<open>UPDATE\<close> row whose details are not empty, and every entry of the details is a field
  whose current value and patch value are different values, with those two values.
\<close>

theorem noop_update_no_audit:
  "(TaskRepository_findById d i = Some current \<and> task_patch_identical ev current data \<and>
    (\<forall>s. u_dueDate data \<noteq> Some (Some (DateStr s))) \<longrightarrow>
      auditLogs (fst (TaskService_update ev flt i data actorId d)) = auditLogs d) \<and>
   (TaskService_update ev flt i data actorId d = (d', Inr task) \<and>
    TaskRepository_findById d i = Some current \<longrightarrow>
      auditLogs d' = auditLogs d \<or>
      (\<exists>diff. diff \<noteq> [] \<and>
         auditLogs d' = auditLogs d @
           [\<lparr>audit_entityType = ''Task'', audit_entityId = i, audit_action = UPDATE,
             audit_actorId = actorId, audit_details = diff\<rparr>] \<and>
         (\<forall>(k, v) \<in> set diff.
            k \<in> set fieldsToCheck \<and> current_field current k \<noteq> data_field data k \<and>
            v = JObject [(''old'', current_field current k), (''new'', data_field data k)]))) \<and>
   (ProjectRepository_findById d j = Some pcurrent \<and>
    project_patch_identical pcurrent pdata \<longrightarrow>
      auditLogs (fst (ProjectService_update flt j pdata actorId d)) = auditLogs d) \<and>
   (ProjectService_update flt j pdata actorId d = (pd', Inr project) \<and>
    ProjectRepository_findById d j = Some pcurrent \<longrightarrow>
      auditLogs pd' = auditLogs d \<or>
      (\<exists>diff. diff \<noteq> [] \<and>
         auditLogs pd' = auditLogs d @
           [\<lparr>audit_entityType = ''Project'', audit_entityId = j, audit_action = UPDATE,
             audit_actorId = actorId, audit_details = diff\<rparr>] \<and>
         (\<forall>(k, v) \<in> set diff.
            (k = ''name'' \<and>
             (\<exists>n. up_name pdata = Some n \<and> n \<noteq> project_name pcurrent \<and>
                  v = JObject [(''old'', JString (project_name pcurrent)),
                               (''new'', JString n)])) \<or>
            (k = ''description'' \<and>
             (\<exists>x. up_description pdata = Some x \<and> x \<noteq> project_description pcurrent \<and>
                  v = JObject [(''old'', json_opt JString (project_description pcurrent)),
                               (''new'', json_opt JString x)])))))"
proof (intro conjI impI)
  assume a: "TaskRepository_findById d i = Some current \<and> task_patch_identical ev current data \<and>
    (\<forall>s. u_dueDate data \<noteq> Some (Some (DateStr s)))"
  obtain d1 r where run: "TaskService_update ev flt i data actorId d = (d1, r)"
    by (cases "TaskService_update ev flt i data actorId d")
  show "auditLogs (fst (TaskService_update ev flt i data actorId d)) = auditLogs d"
  proof (cases r)
    case (Inl e)
    with run TaskService_update_error show ?thesis by fastforce
  next
    case (Inr t)
    with run a TaskService_update_audit [of ev flt i data actorId d d1 t current]
      diff_loop_identical [of ev current data]
    show ?thesis by simp
  qed
next
  assume a: "TaskService_update ev flt i data actorId d = (d', Inr task) \<and>
    TaskRepository_findById d i = Some current"
  then have log: "auditLogs d' = auditLogs d @
           (if diff_loop current data fieldsToCheck [] = [] then []
            else [\<lparr>audit_entityType = ''Task'', audit_entityId = i, audit_action = UPDATE,
                   audit_actorId = actorId,
                   audit_details = diff_loop current data fieldsToCheck []\<rparr>])"
    using TaskService_update_audit by blast
  have entries: "\<forall>(k, v) \<in> set (diff_loop current data fieldsToCheck []).
             k \<in> set fieldsToCheck \<and> current_field current k \<noteq> data_field data k \<and>
             v = JObject [(''old'', current_field current k), (''new'', data_field data k)]"
    using diff_loop_entries [of _ _ current data fieldsToCheck "[]"] js_String_differs
    by fastforce
  show "auditLogs d' = auditLogs d \<or>
       (\<exists>diff. diff \<noteq> [] \<and>
          auditLogs d' = auditLogs d @
            [\<lparr>audit_entityType = ''Task'', audit_entityId = i, audit_action = UPDATE,
              audit_actorId = actorId, audit_details = diff\<rparr>] \<and>
          (\<forall>(k, v) \<in> set diff.
             k \<in> set fieldsToCheck \<and> current_field current k \<noteq> data_field data k \<and>
             v = JObject [(''old'', current_field current k), (''new'', data_field data k)]))"
  proof (cases "diff_loop current data fieldsToCheck [] = []")
    case True
    with log show ?thesis by simp
  next
    case False
    with log entries show ?thesis by auto
  qed
next
  assume a: "ProjectRepository_findById d j = Some pcurrent \<and>
    project_patch_identical pcurrent pdata"
  obtain d1 r where run: "ProjectService_update flt j pdata actorId d = (d1, r)"
    by (cases "ProjectService_update flt j pdata actorId d")
  show "auditLogs (fst (ProjectService_update flt j pdata actorId d)) = auditLogs d"
  proof (cases r)
    case (Inl e)
    with run ProjectService_update_error show ?thesis by fastforce
  next
    case (Inr pr)
    with run a ProjectService_update_success [of flt j pdata actorId d d1 pr]
      project_diff_identical [of pcurrent pdata]
    show ?thesis by auto
  qed
next
  assume a: "ProjectService_update flt j pdata actorId d = (pd', Inr project) \<and>
    ProjectRepository_findById d j = Some pcurrent"
  with ProjectService_update_success [of flt j pdata actorId d pd' project]
  have log: "auditLogs pd' = auditLogs d @
           (if project_diff pcurrent pdata = [] then []
            else [\<lparr>audit_entityType = ''Project'', audit_entityId = j, audit_action = UPDATE,
                   audit_actorId = actorId, audit_details = project_diff pcurrent pdata\<rparr>])"
    by auto
  show "auditLogs pd' = auditLogs d \<or>
       (\<exists>diff. diff \<noteq> [] \<and>
          auditLogs pd' = auditLogs d @
            [\<lparr>audit_entityType = ''Project'', audit_entityId = j, audit_action = UPDATE,
              audit_actorId = actorId, audit_details = diff\<rparr>] \<and>
          (\<forall>(k, v) \<in> set diff.
             (k = ''name'' \<and>
              (\<exists>n. up_name pdata = Some n \<and> n \<noteq> project_name pcurrent \<and>
                   v = JObject [(''old'', JString (project_name pcurrent)),
                                (''new'', JString n)])) \<or>
             (k = ''description'' \<and>
              (\<exists>x. up_description pdata = Some x \<and> x \<noteq> project_description pcurrent \<and>
                   v = JObject [(''old'', json_opt JString (project_description pcurrent)),
                                (''new'', json_opt JString x)]))))"
  proof (cases "project_diff pcurrent pdata = []")
    case True
    with log show ?thesis by simp
  next
    case False
    have "\<forall>(k, v) \<in> set (project_diff pcurrent pdata).
             (k = ''name'' \<and>
              (\<exists>n. up_name pdata = Some n \<and> n \<noteq> project_name pcurrent \<and>
                   v = JObject [(''old'', JString (project_name pcurrent)),
                                (''new'', JString n)])) \<or>
             (k = ''description'' \<and>
              (\<exists>x. up_description pdata = Some x \<and> x \<noteq> project_description pcurrent \<and>
                   v = JObject [(''old'', json_opt JString (project_description pcurrent)),
                                (''new'', json_opt JString x)]))"
      using project_diff_entries [of _ _ pcurrent pdata] by blast
    with False log show ?thesis by auto
  qed
qed

theorem noop_update_no_audit_witness:
  "task_patch_identical ex_env ex_t2
     (no_patch\<lparr>u_title := Some ''Ship'', u_description := Some (Some ''done''),
               u_status := Some DONE, u_priority := Some (Some ''High''),
               u_dueDate := Some None, u_assigneeId := Some (Some ''um'')\<rparr>) \<and>
   TaskRepository_findById ex_db ''t2'' = Some ex_t2 \<and>
   TaskService_update ex_env None ''t2''
     (no_patch\<lparr>u_title := Some ''Ship'', u_description := Some (Some ''done''),
               u_status := Some DONE, u_priority := Some (Some ''High''),
               u_dueDate := Some None, u_assigneeId := Some (Some ''um'')\<rparr>) ''um'' ex_db
     = (ex_db\<lparr>tasks := [ex_t1, ex_t2\<lparr>task_updatedAt := 9000\<rparr>]\<rparr>,
        Inr (ex_t2\<lparr>task_updatedAt := 9000\<rparr>)) \<and>
   project_patch_identical
     \<lparr>project_id = ''p1'', project_name = ''Apollo'', project_description = None\<rparr>
     \<lparr>up_name = Some ''Apollo'', up_description = Some None\<rparr> \<and>
   ProjectRepository_findById ex_db ''p1''
     = Some \<lparr>project_id = ''p1'', project_name = ''Apollo'', project_description = None\<rparr> \<and>
   ProjectService_update None ''p1'' \<lparr>up_name = Some ''Apollo'', up_description = Some None\<rparr>
     ''um'' ex_db
     = (ex_db, Inr \<lparr>project_id = ''p1'', project_name = ''Apollo'', project_description = None\<rparr>) \<and>
   auditLogs ex_db = [] \<and>
   auditLogs (ex_db\<lparr>tasks := [ex_t1, ex_t2\<lparr>task_updatedAt := 9000\<rparr>]\<rparr>) = []"
proof -
  let ?patch = "no_patch\<lparr>u_title := Some ''Ship'', u_description := Some (Some ''done''),
               u_status := Some DONE, u_priority := Some (Some ''High''),
               u_dueDate := Some None, u_assigneeId := Some (Some ''um'')\<rparr>"
  let ?p = "\<lparr>project_id = ''p1'', project_name = ''Apollo'', project_description = None\<rparr>"
  let ?pp = "\<lparr>up_name = Some ''Apollo'', up_description = Some None\<rparr>"
  let ?d = "ex_db\<lparr>tasks := [ex_t1, ex_t2\<lparr>task_updatedAt := 9000\<rparr>]\<rparr>"
  have t1: "task_patch_identical ex_env ex_t2 ?patch"
    by (simp add: task_patch_identical_def declared_only_def prisma_accepts_def
        date_accepted_def stored_date_def nullable_def ex_t2_def no_patch_def)
  have t2: "TaskRepository_findById ex_db ''t2'' = Some ex_t2"
    by (simp add: store_defs ex_defs)
  have t3: "TaskService_update ex_env None ''t2'' ?patch ''um'' ex_db
      = (?d, Inr (ex_t2\<lparr>task_updatedAt := 9000\<rparr>))"
    by (simp add: update_defs validateAssignee_def store_defs tx_defs ex_defs)
  have t4: "\<forall>s. u_dueDate ?patch \<noteq> Some (Some (DateStr s))" by (simp add: no_patch_def)
  have p1: "project_patch_identical ?p ?pp"
    by (simp add: project_patch_identical_def)
  have p2: "ProjectRepository_findById ex_db ''p1'' = Some ?p"
    by (simp add: store_defs ex_defs)
  have p3: "ProjectService_update None ''p1'' ?pp ''um'' ex_db = (ex_db, Inr ?p)"
    by (simp add: ProjectService_update_def store_defs tx_defs ex_defs project_diff_def
        prisma_project_data_def)
  have e: "auditLogs ex_db = []" by (simp add: ex_db_def)
  from noop_update_no_audit [where ev = ex_env and flt = None and i = "''t2''" and data = ?patch
      and actorId = "''um''" and d = ex_db and current = ex_t2
      and j = "''p1''" and pdata = ?pp and pcurrent = ?p]
    t1 t2 t4
  have "auditLogs (fst (TaskService_update ex_env None ''t2'' ?patch ''um'' ex_db))
      = auditLogs ex_db"
    by blast
  with t3 e have "auditLogs ?d = []" by simp
  with t1 t2 t3 p1 p2 p3 e show ?thesis by blast
qed

section \<open>Changing one's own role\<close>

lemma user_update_found:
  assumes "user_findUnique d i = Some u" and "\<And>x. user_id (f x) = user_id x"
  shows "\<exists>d'. user_update i f d = (Inr (f u), d') \<and> user_findUnique d' i = Some (f u)"
  using assms find_map_update [where key = user_id and f = f and xs = "users d" and i = i]
  by (simp add: user_update_def user_findUnique_def)

text \<open>
  Claim C6, as amended. When the actor updates their own user and supplies a role that
  differs from their current role, \<open>UserController.update\<close> fails with status 400 and the
  message \<open>Cannot change your own role\<close>, and nothing is written. When the supplied role
  equals the current role, the update goes through. In both cases the stored role of the
  user is the one it was.
\<close>

theorem self_role_update:
  assumes "UserRepository_findById d i = Some existingUser"
    and "b_role body = Some role"
  shows "(role \<noteq> user_role existingUser \<longrightarrow>
            UserController_update i i body d =
              (d, Inl (AppError ''Cannot change your own role'' 400 None None))) \<and>
         (role = user_role existingUser \<longrightarrow>
            (\<exists>d' u. UserController_update i i body d = (d', Inr u) \<and>
                    user_role u = user_role existingUser \<and>
                    UserRepository_findById d' i = Some u)) \<and>
         map_option user_role
           (UserRepository_findById (fst (UserController_update i i body d)) i)
           = Some (user_role existingUser)"
proof -
  let ?f = "\<lambda>u. u\<lparr>user_name := (case b_name body of None \<Rightarrow> user_name u | Some v \<Rightarrow> v),
                    user_role := (case b_role body of None \<Rightarrow> user_role u | Some v \<Rightarrow> v)\<rparr>"
  from assms(1) have found: "user_findUnique d i = Some existingUser"
    by (simp add: UserRepository_findById_def)
  have deny: "UserController_update i i body d =
      (d, Inl (AppError ''Cannot change your own role'' 400 None None))"
    if "role \<noteq> user_role existingUser"
    using that assms by (simp add: UserController_update_def)
  have allow: "\<exists>d' u. UserController_update i i body d = (d', Inr u) \<and>
                    user_role u = user_role existingUser \<and>
                    UserRepository_findById d' i = Some u"
    if same: "role = user_role existingUser"
  proof -
    have "\<And>x. user_id (?f x) = user_id x" by simp
    from user_update_found [OF found, of ?f, OF this]
    obtain d' where u: "user_update i ?f d = (Inr (?f existingUser), d')"
      and s: "user_findUnique d' i = Some (?f existingUser)"
      by auto
    from u s assms same show ?thesis
      by (simp add: UserController_update_def UserRepository_findById_def)
  qed
  have "map_option user_role
           (UserRepository_findById (fst (UserController_update i i body d)) i)
           = Some (user_role existingUser)"
  proof (cases "role = user_role existingUser")
    case True
    from allow [OF True] show ?thesis by auto
  next
    case False
    from deny [OF False] assms(1) show ?thesis by simp
  qed
  with deny allow show ?thesis by blast
qed

theorem self_role_update_witness:
  "UserRepository_findById ex_db ''ua''
     = Some \<lparr>user_id = ''ua'', user_email = ''a@x'', user_name = ''Ann'', user_password = ''h1'',
             user_role = ADMIN\<rparr> \<and>
   UserController_update ''ua'' ''ua'' \<lparr>b_name = None, b_role = Some MEMBER\<rparr> ex_db
     = (ex_db, Inl (AppError ''Cannot change your own role'' 400 None None))"
proof -
  let ?u = "\<lparr>user_id = ''ua'', user_email = ''a@x'', user_name = ''Ann'', user_password = ''h1'',
             user_role = ADMIN\<rparr>"
  have f: "UserRepository_findById ex_db ''ua'' = Some ?u"
    by (simp add: store_defs ex_defs)
  have b: "b_role \<lparr>b_name = None, b_role = Some MEMBER\<rparr> = Some MEMBER" by simp
  from self_role_update [OF f b] f show ?thesis by simp
qed

theorem self_role_same_counterexample:
  "UserController_update ''ua'' ''ua'' \<lparr>b_name = None, b_role = Some ADMIN\<rparr> ex_db
     = (ex_db, Inr \<lparr>user_id = ''ua'', user_email = ''a@x'', user_name = ''Ann'',
                    user_password = ''h1'', user_role = ADMIN\<rparr>)"
  by (simp add: UserController_update_def store_defs ex_defs)

section \<open>Project members\<close>

lemma ProjectService_addMember_error:
  assumes "ProjectService_addMember ev flt p u r actorId d = (d', Inl e)"
  shows "d' = d"
  using assms transaction_error_unchanged
  unfolding ProjectService_addMember_def
  by (fastforce split: option.splits)

lemma ProjectService_addMember_fresh:
  assumes "ProjectRepository_findById d p = Some project"
    and "UserRepository_findById d u = Some user"
    and "getUserProjectRole d p u = None"
  shows "ProjectService_addMember ev None p u r actorId d =
     (d\<lparr>projectMembers := projectMembers d @
            [\<lparr>member_id = newId ev, member_projectId = p, member_userId = u,
              member_projectRole = r\<rparr>],
         auditLogs := auditLogs d @
            [\<lparr>audit_entityType = ''Project'', audit_entityId = p, audit_action = UPDATE,
              audit_actorId = actorId,
              audit_details =
                [(''memberAdded'',
                  JObject [(''userId'', JString u), (''userName'', JString (user_name user)),
                           (''userEmail'', JString (user_email user)),
                           (''projectRole'', json_role r)])]\<rparr>]\<rparr>,
      Inr (\<lparr>member_id = newId ev, member_projectId = p, member_userId = u,
             member_projectRole = r\<rparr>, user))"
  using assms
  by (simp add: ProjectService_addMember_def tx_defs projectMember_create_include_user_def
      UserRepository_findById_def AuditRepository_create_def auditLog_create_def)

text \<open>
  Claim C7. \<open>ProjectService.addMember\<close> fails with \<open>PROJECT.NOT_FOUND\<close> when the project is
  absent, with \<open>USER.NOT_FOUND\<close> when the user is absent, and with
  \<open>PROJECT.MEMBER_ALREADY_EXISTS\<close> when the pair already has a row; whenever the pair has a
  row the call fails and the row's role stays as it was. Otherwise, the store not aborting,
  it inserts the row and appends one \<open>UPDATE\<close> audit record on the \<open>Project\<close> entity whose
  details are \<open>memberAdded\<close>.
\<close>

theorem addMember_outcomes:
  "(ProjectRepository_findById d p = None \<longrightarrow>
      ProjectService_addMember ev flt p u r actorId d =
        (d, Inl (AppError_notFound ''Project not found'' ErrorCodes_PROJECT_NOT_FOUND))) \<and>
   (ProjectRepository_findById d p \<noteq> None \<and> UserRepository_findById d u = None \<longrightarrow>
      ProjectService_addMember ev flt p u r actorId d =
        (d, Inl (AppError_badRequest ''User not found'' ErrorCodes_USER_NOT_FOUND
                   [(''userId'', JString u)]))) \<and>
   (\<forall>existingRole.
      ProjectRepository_findById d p \<noteq> None \<and> UserRepository_findById d u \<noteq> None \<and>
      getUserProjectRole d p u = Some existingRole \<longrightarrow>
      ProjectService_addMember ev flt p u r actorId d =
        (d, Inl (AppError_badRequest ''User is already a member of this project''
                   ErrorCodes_PROJECT_MEMBER_ALREADY_EXISTS
                   [(''userId'', JString u), (''projectId'', JString p),
                    (''existingRole'', json_role existingRole)]))) \<and>
   (\<forall>existingRole.
      getUserProjectRole d p u = Some existingRole \<longrightarrow>
      (\<exists>e. ProjectService_addMember ev flt p u r actorId d = (d, Inl e)) \<and>
      getUserProjectRole (fst (ProjectService_addMember ev flt p u r actorId d)) p u
        = Some existingRole) \<and>
   (\<forall>project user.
      ProjectRepository_findById d p = Some project \<and>
      UserRepository_findById d u = Some user \<and> getUserProjectRole d p u = None \<longrightarrow>
      ProjectService_addMember ev None p u r actorId d =
        (d\<lparr>projectMembers := projectMembers d @
               [\<lparr>member_id = newId ev, member_projectId = p, member_userId = u,
                 member_projectRole = r\<rparr>],
            auditLogs := auditLogs d @
               [\<lparr>audit_entityType = ''Project'', audit_entityId = p, audit_action = UPDATE,
                 audit_actorId = actorId,
                 audit_details =
                   [(''memberAdded'',
                     JObject [(''userId'', JString u), (''userName'', JString (user_name user)),
                              (''userEmail'', JString (user_email user)),
                              (''projectRole'', json_role r)])]\<rparr>]\<rparr>,
         Inr (\<lparr>member_id = newId ev, member_projectId = p, member_userId = u,
                member_projectRole = r\<rparr>, user)))"
proof -
  have 1: "ProjectRepository_findById d p = None \<longrightarrow>
      ProjectService_addMember ev flt p u r actorId d =
        (d, Inl (AppError_notFound ''Project not found'' ErrorCodes_PROJECT_NOT_FOUND))"
    by (simp add: ProjectService_addMember_def)
  have 2: "ProjectRepository_findById d p \<noteq> None \<and> UserRepository_findById d u = None \<longrightarrow>
      ProjectService_addMember ev flt p u r actorId d =
        (d, Inl (AppError_badRequest ''User not found'' ErrorCodes_USER_NOT_FOUND
                   [(''userId'', JString u)]))"
    by (auto simp: ProjectService_addMember_def)
  have 3: "\<forall>existingRole.
      ProjectRepository_findById d p \<noteq> None \<and> UserRepository_findById d u \<noteq> None \<and>
      getUserProjectRole d p u = Some existingRole \<longrightarrow>
      ProjectService_addMember ev flt p u r actorId d =
        (d, Inl (AppError_badRequest ''User is already a member of this project''
                   ErrorCodes_PROJECT_MEMBER_ALREADY_EXISTS
                   [(''userId'', JString u), (''projectId'', JString p),
                    (''existingRole'', json_role existingRole)]))"
    by (auto simp: ProjectService_addMember_def)
  have 4: "\<forall>existingRole.
      getUserProjectRole d p u = Some existingRole \<longrightarrow>
      (\<exists>e. ProjectService_addMember ev flt p u r actorId d = (d, Inl e)) \<and>
      getUserProjectRole (fst (ProjectService_addMember ev flt p u r actorId d)) p u
        = Some existingRole"
    by (auto simp: ProjectService_addMember_def split: option.splits)
  have 5: "\<forall>project user.
      ProjectRepository_findById d p = Some project \<and>
      UserRepository_findById d u = Some user \<and> getUserProjectRole d p u = None \<longrightarrow>
      ProjectService_addMember ev None p u r actorId d =
        (d\<lparr>projectMembers := projectMembers d @
               [\<lparr>member_id = newId ev, member_projectId = p, member_userId = u,
                 member_projectRole = r\<rparr>],
            auditLogs := auditLogs d @
               [\<lparr>audit_entityType = ''Project'', audit_entityId = p, audit_action = UPDATE,
                 audit_actorId = actorId,
                 audit_details =
                   [(''memberAdded'',
                     JObject [(''userId'', JString u), (''userName'', JString (user_name user)),
                              (''userEmail'', JString (user_email user)),
                              (''projectRole'', json_role r)])]\<rparr>]\<rparr>,
         Inr (\<lparr>member_id = newId ev, member_projectId = p, member_userId = u,
                member_projectRole = r\<rparr>, user))"
    using ProjectService_addMember_fresh by blast
  from 1 2 3 4 5 show ?thesis by blast
qed

theorem addMember_outcomes_witness:
  "getUserProjectRole ex_db ''p1'' ''uo'' = None \<and>
   snd (ProjectService_addMember ex_env None ''p1'' ''uo'' ProjectRole_MEMBER ''ua'' ex_db)
     = Inr (\<lparr>member_id = ''n1'', member_projectId = ''p1'', member_userId = ''uo'',
              member_projectRole = ProjectRole_MEMBER\<rparr>,
            \<lparr>user_id = ''uo'', user_email = ''o@x'', user_name = ''Oli'',
              user_password = ''h5'', user_role = MEMBER\<rparr>) \<and>
   getUserProjectRole
     (fst (ProjectService_addMember ex_env None ''p1'' ''uo'' ProjectRole_MEMBER ''ua'' ex_db))
     ''p1'' ''uo'' = Some ProjectRole_MEMBER \<and>
   ProjectService_addMember ex_env None ''p1'' ''uo'' ProjectRole_VIEWER ''ua''
     (fst (ProjectService_addMember ex_env None ''p1'' ''uo'' ProjectRole_MEMBER ''ua'' ex_db))
     = (fst (ProjectService_addMember ex_env None ''p1'' ''uo'' ProjectRole_MEMBER ''ua'' ex_db),
        Inl (AppError_badRequest ''User is already a member of this project''
               ErrorCodes_PROJECT_MEMBER_ALREADY_EXISTS
               [(''userId'', JString ''uo''), (''projectId'', JString ''p1''),
                (''existingRole'', JString ''MEMBER'')]))"
proof -
  let ?p = "\<lparr>project_id = ''p1'', project_name = ''Apollo'', project_description = None\<rparr>"
  let ?u = "\<lparr>user_id = ''uo'', user_email = ''o@x'', user_name = ''Oli'',
              user_password = ''h5'', user_role = MEMBER\<rparr>"
  let ?m = "\<lparr>member_id = ''n1'', member_projectId = ''p1'', member_userId = ''uo'',
              member_projectRole = ProjectRole_MEMBER\<rparr>"
  let ?d1 = "ex_db\<lparr>projectMembers := projectMembers ex_db @ [?m],
            auditLogs := auditLogs ex_db @
               [\<lparr>audit_entityType = ''Project'', audit_entityId = ''p1'', audit_action = UPDATE,
                 audit_actorId = ''ua'',
                 audit_details =
                   [(''memberAdded'',
                     JObject [(''userId'', JString ''uo''), (''userName'', JString (user_name ?u)),
                              (''userEmail'', JString (user_email ?u)),
                              (''projectRole'', json_role ProjectRole_MEMBER)])]\<rparr>]\<rparr>"
  have p: "ProjectRepository_findById ex_db ''p1'' = Some ?p"
    by (simp add: store_defs ex_defs)
  have u: "UserRepository_findById ex_db ''uo'' = Some ?u"
    by (simp add: store_defs ex_defs)
  have n: "getUserProjectRole ex_db ''p1'' ''uo'' = None"
    by (simp add: store_defs ex_defs)
  from addMember_outcomes [where d = ex_db and p = "''p1''" and u = "''uo''" and ev = ex_env
      and r = ProjectRole_MEMBER and actorId = "''ua''"] p u n
  have first: "ProjectService_addMember ex_env None ''p1'' ''uo'' ProjectRole_MEMBER ''ua'' ex_db
      = (?d1, Inr (?m, ?u))"
    by (simp add: ex_env_def)
  have p1: "ProjectRepository_findById ?d1 ''p1'' \<noteq> None"
    by (simp add: store_defs ex_defs)
  have u1: "UserRepository_findById ?d1 ''uo'' \<noteq> None"
    by (simp add: store_defs ex_defs)
  have r1: "getUserProjectRole ?d1 ''p1'' ''uo'' = Some ProjectRole_MEMBER"
    by (simp add: store_defs ex_defs)
  from addMember_outcomes [where d = ?d1 and p = "''p1''" and u = "''uo''" and ev = ex_env
      and flt = None and r = ProjectRole_VIEWER and actorId = "''ua''"] p1 u1 r1
  have second: "ProjectService_addMember ex_env None ''p1'' ''uo'' ProjectRole_VIEWER ''ua'' ?d1
      = (?d1, Inl (AppError_badRequest ''User is already a member of this project''
               ErrorCodes_PROJECT_MEMBER_ALREADY_EXISTS
               [(''userId'', JString ''uo''), (''projectId'', JString ''p1''),
                (''existingRole'', JString ''MEMBER'')]))"
    by (simp add: json_role_def)
  from n first r1 second show ?thesis by simp
qed

section \<open>Analytics\<close>






















section \<open>Atomic writes\<close>

lemma tx_write_audit_unit:
  assumes "transaction flt
     (tx_bind (tx_stmt q) (\<lambda>_. AuditRepository_create et ei ac actor det)) d = (d', Inr r)"
  shows "\<exists>d1 x. q d = (Inr x, d1) \<and>
           d' = d1\<lparr>auditLogs := auditLogs d1 @
                   [\<lparr>audit_entityType = et, audit_entityId = ei, audit_action = ac,
                     audit_actorId = actor, audit_details = det\<rparr>]\<rparr>"
  using assms
  unfolding transaction_def tx_bind_def tx_stmt_def tx_return_def AuditRepository_create_def
    auditLog_create_def
  by (auto split: prod.splits sum.splits option.splits nat.splits if_splits)

lemma find_filter_none: "find (\<lambda>x. key x = i) (filter (\<lambda>x. key x \<noteq> i) xs) = None"
  by (induction xs) auto

lemma TaskService_delete_error:
  assumes "TaskService_delete flt i actorId d = (d', Inl e)"
  shows "d' = d"
  using assms transaction_error_unchanged
  unfolding TaskService_delete_def
  by (fastforce split: option.splits)

lemma TaskService_delete_success:
  assumes "TaskService_delete flt i actorId d = (d', Inr r)"
  shows "TaskRepository_findById d' i = None \<and> audit_appended d d' ''Task'' i DELETE actorId"
proof (cases "TaskRepository_findById d i")
  case None
  with assms show ?thesis by (simp add: TaskService_delete_def)
next
  case (Some task)
  with assms tx_write_audit_unit obtain d1 x where
    q: "task_delete i d = (Inr x, d1)" and
    d': "auditLogs d' = auditLogs d1 @
           [\<lparr>audit_entityType = ''Task'', audit_entityId = i, audit_action = DELETE,
             audit_actorId = actorId,
             audit_details =
               [(''title'', JString (task_title task)),
                (''description'', json_opt JString (task_description task)),
                (''status'', json_status (task_status task)),
                (''priority'', json_opt JString (task_priority task)),
                (''dueDate'', json_opt JDate (task_dueDate task)),
                (''projectId'', JString (task_projectId task)),
                (''assigneeId'', json_opt JString (task_assigneeId task))]\<rparr>]"
    and t: "tasks d' = tasks d1"
    unfolding TaskService_delete_def by fastforce
  from q have "auditLogs d1 = auditLogs d"
    and "tasks d1 = filter (\<lambda>x. task_id x \<noteq> i) (tasks d)"
    by (auto simp: task_delete_def split: option.splits)
  with d' t show ?thesis
    by (auto simp: audit_appended_def TaskRepository_findById_def task_findUnique_def
        find_filter_none)
qed

lemma ProjectService_create_error:
  assumes "ProjectService_create ev flt data actorId d = (d', Inl e)"
  shows "d' = d"
  using assms transaction_error_unchanged
  unfolding ProjectService_create_def
  by fastforce

lemma ProjectService_create_success:
  assumes "ProjectService_create ev flt data actorId d = (d', Inr project)"
  shows "projects d' = projects d @ [project] \<and>
         audit_appended d d' ''Project'' (project_id project) CREATE actorId"
  using assms tx_write_then_audit
  unfolding ProjectService_create_def
  by (fastforce simp: project_create_def audit_appended_def)

lemma ProjectService_delete_error:
  assumes "ProjectService_delete flt i actorId d = (d', Inl e)"
  shows "d' = d"
  using assms transaction_error_unchanged
  unfolding ProjectService_delete_def
  by (fastforce split: option.splits)

lemma ProjectService_delete_success:
  assumes "ProjectService_delete flt i actorId d = (d', Inr r)"
  shows "ProjectRepository_findById d' i = None \<and>
         audit_appended d d' ''Project'' i DELETE actorId"
proof (cases "ProjectRepository_findById d i")
  case None
  with assms show ?thesis by (simp add: ProjectService_delete_def)
next
  case (Some project)
  with assms tx_write_audit_unit obtain d1 x where
    q: "project_delete i d = (Inr x, d1)" and
    d': "auditLogs d' = auditLogs d1 @
           [\<lparr>audit_entityType = ''Project'', audit_entityId = i, audit_action = DELETE,
             audit_actorId = actorId,
             audit_details =
               [(''name'', JString (project_name project)),
                (''description'', json_opt JString (project_description project))]\<rparr>]"
    and t: "projects d' = projects d1"
    unfolding ProjectService_delete_def by fastforce
  from q have "auditLogs d1 = auditLogs d"
    and "projects d1 = filter (\<lambda>x. project_id x \<noteq> i) (projects d)"
    by (auto simp: project_delete_def split: option.splits)
  with d' t show ?thesis
    by (auto simp: audit_appended_def ProjectRepository_findById_def project_findUnique_def
        find_filter_none)
qed

lemma ProjectService_addMember_success:
  assumes "ProjectService_addMember ev flt p u r actorId d = (d', Inr mu)"
  shows "projectMembers d' = projectMembers d @ [fst mu] \<and>
         audit_appended d d' ''Project'' p UPDATE actorId"
proof -
  from assms obtain project user where
    "ProjectRepository_findById d p = Some project" "UserRepository_findById d u = Some user"
    "getUserProjectRole d p u = None"
    unfolding ProjectService_addMember_def by (auto split: option.splits)
  with assms tx_write_then_audit show ?thesis
    unfolding ProjectService_addMember_def
    by (fastforce simp: projectMember_create_include_user_def audit_appended_def
        split: option.splits)
qed

lemma ProjectService_updateMemberRole_error:
  assumes "ProjectService_updateMemberRole flt p mid newRole actorId d = (d', Inl e)"
  shows "d' = d"
  using assms transaction_error_unchanged
  unfolding ProjectService_updateMemberRole_def
  by (fastforce simp: Let_def split: option.splits prod.splits if_splits)

lemma include_user_member:
  "projectMember_findUnique_include_user d mid = Some (member, user) \<Longrightarrow>
   projectMember_findUnique d mid = Some member"
  by (auto simp: projectMember_findUnique_include_user_def split: option.splits)

lemma ProjectService_updateMemberRole_success:
  assumes "ProjectService_updateMemberRole flt p mid newRole actorId d = (d', Inr m)"
  shows "\<exists>member. projectMember_findUnique d mid = Some member \<and>
           member_projectId member = p \<and>
           (if member_projectRole member = newRole then d' = d \<and> m = member
            else member_projectRole m = newRole \<and>
                 projectMember_findUnique d' mid = Some m \<and>
                 audit_appended d d' ''Project'' p UPDATE actorId)"
proof (cases "projectMember_findUnique_include_user d mid")
  case None
  with assms show ?thesis by (simp add: ProjectService_updateMemberRole_def)
next
  case (Some mu)
  obtain member user where mu: "mu = (member, user)" by (cases mu)
  from Some mu have f: "projectMember_findUnique d mid = Some member"
    by (simp add: include_user_member)
  from assms Some mu have p: "member_projectId member = p"
    by (auto simp: ProjectService_updateMemberRole_def split: if_splits)
  show ?thesis
  proof (cases "member_projectRole member = newRole")
    case True
    with assms Some mu p f show ?thesis
      by (simp add: ProjectService_updateMemberRole_def)
  next
    case False
    let ?f = "\<lambda>m. m\<lparr>member_projectRole := newRole\<rparr>"
    from assms Some mu p False tx_write_then_audit obtain d1 where
      q: "projectMember_update mid ?f d = (Inr m, d1)"
      and a: "auditLogs d' = auditLogs d1 @
         [\<lparr>audit_entityType = ''Project'', audit_entityId = p, audit_action = UPDATE,
           audit_actorId = actorId,
           audit_details =
             [(''memberRoleChanged'',
               JObject
                 [(''userId'', JString (member_userId member)),
                  (''userName'', JString (user_name user)),
                  (''projectRole'',
                   JObject [(''old'', json_role (member_projectRole member)),
                            (''new'', json_role newRole)])])]\<rparr>]"
      and ms: "projectMembers d' = projectMembers d1"
      unfolding ProjectService_updateMemberRole_def by fastforce
    from q f have m: "m = ?f member"
      and d1: "d1 = d\<lparr>projectMembers :=
                 map (\<lambda>x. if member_id x = mid then ?f x else x) (projectMembers d)\<rparr>"
      by (auto simp: projectMember_update_def)
    from f have "find (\<lambda>x. member_id x = mid) (projectMembers d) = Some member"
      by (simp add: projectMember_findUnique_def)
    from find_map_update [where key = member_id and f = ?f, OF this]
    have "projectMember_findUnique d' mid = Some m"
      using m d1 ms by (simp add: projectMember_findUnique_def)
    with m d1 a f p False show ?thesis
      by (auto simp: audit_appended_def)
  qed
qed

lemma ProjectService_removeMember_error:
  assumes "ProjectService_removeMember flt p mid actorId d = (d', Inl e)"
  shows "d' = d"
  using assms transaction_error_unchanged
  unfolding ProjectService_removeMember_def
  by fastforce

lemma ProjectService_removeMember_success:
  assumes "ProjectService_removeMember flt p mid actorId d = (d', Inr r)"
  shows "projectMember_findUnique d' mid = None \<and>
         audit_appended d d' ''Project'' p UPDATE actorId"
proof -
  from assms have "\<exists>member user.
      projectMember_findUnique_include_user d mid = Some (member, user) \<and>
      d' = d\<lparr>projectMembers := filter (\<lambda>x. member_id x \<noteq> mid) (projectMembers d),
             auditLogs := auditLogs d @
               [\<lparr>audit_entityType = ''Project'', audit_entityId = p, audit_action = UPDATE,
                 audit_actorId = actorId,
                 audit_details =
                   [(''memberRemoved'',
                     JObject
                       [(''userId'', JString (member_userId member)),
                        (''userName'', JString (user_name user)),
                        (''userEmail'', JString (user_email user)),
                        (''projectRole'', json_role (member_projectRole member))])]\<rparr>]\<rparr>"
    unfolding ProjectService_removeMember_def transaction_def tx_bind_def tx_stmt_def
      tx_throw_def AuditRepository_create_def auditLog_create_def projectMember_delete_def
    by (auto split: prod.splits sum.splits option.splits nat.splits if_splits
        dest: include_user_member)
  then show ?thesis
    by (auto simp: audit_appended_def projectMember_findUnique_def find_filter_none)
qed

lemma ProjectService_update_stored:
  assumes "ProjectService_update flt i data actorId d = (d', Inr project)"
  shows "ProjectRepository_findById d' i = Some project"
proof -
  from ProjectService_update_success [OF assms] obtain current where
    c: "ProjectRepository_findById d i = Some current"
    and t: "project = prisma_project_data data current"
    and d': "projects d' = map (\<lambda>x. if project_id x = i
               then prisma_project_data data x else x) (projects d)"
    by auto
  from c have "find (\<lambda>t. project_id t = i) (projects d) = Some current"
    by (simp add: ProjectRepository_findById_def project_findUnique_def)
  from find_map_update [where key = project_id, OF this project_id_prisma_project_data]
  show ?thesis using t d'
    by (simp add: ProjectRepository_findById_def project_findUnique_def)
qed

lemma ProjectService_update_audit:
  assumes "ProjectService_update flt i data actorId d = (d', Inr project)"
  shows "auditLogs d' = auditLogs d \<or> audit_appended d d' ''Project'' i UPDATE actorId"
proof -
  from ProjectService_update_success [OF assms] obtain current where
    l: "auditLogs d' =
          (if length (project_diff current data) > 0
           then auditLogs d @
             [\<lparr>audit_entityType = ''Project'', audit_entityId = i, audit_action = UPDATE,
               audit_actorId = actorId, audit_details = project_diff current data\<rparr>]
           else auditLogs d)"
    by auto
  show ?thesis
  proof (cases "project_diff current data = []")
    case True
    with l show ?thesis by simp
  next
    case False
    with l show ?thesis by (auto simp: audit_appended_def)
  qed
qed

lemma TaskService_update_audit_appended:
  assumes "TaskService_update ev flt i data actorId d = (d', Inr task)"
  shows "auditLogs d' = auditLogs d \<or> audit_appended d d' ''Task'' i UPDATE actorId"
proof -
  from TaskService_update_success [OF assms] obtain current where
    "TaskRepository_findById d i = Some current" by blast
  from TaskService_update_audit [OF assms this] show ?thesis
    by (auto simp: audit_appended_def)
qed

lemma TaskService_create_audit_appended:
  assumes "TaskService_create ev flt data actorId d = (d', Inr task)"
  shows "tasks d' = tasks d @ [task] \<and>
         audit_appended d d' ''Task'' (task_id task) CREATE actorId"
proof -
  from TaskService_create_success [OF assms] obtain details where
    d': "d' = d\<lparr>tasks := tasks d @ [task],
                auditLogs := auditLogs d @
                  [\<lparr>audit_entityType = ''Task'', audit_entityId = task_id task,
                    audit_action = CREATE, audit_actorId = actorId,
                    audit_details = details\<rparr>]\<rparr>"
    by blast
  show ?thesis unfolding audit_appended_def by (subst (1 2) d') auto
qed

lemma transaction_abort_first:
  "transaction (Some 0) (tx_bind (tx_stmt q) f) d = (d, Inl StoreAbort)"
  by (simp add: tx_defs)

lemma transaction_abort_second:
  assumes "q d = (Inr x, d1)"
  shows "transaction (Some 1) (tx_bind (tx_stmt q) (\<lambda>x. tx_bind (tx_stmt (q2 x)) (k x))) d
           = (d, Inl StoreAbort)"
  using assms by (simp add: tx_defs)

lemmas abort_defs = tx_defs AuditRepository_create_def auditLog_create_def

lemma TaskService_create_abort:
  fixes cdata :: "'a CreateTaskData_scheme"
  assumes "k \<le> 1"
  shows "isl (snd (TaskService_create ev (Some k) cdata actorId d))"
proof -
  from assms consider "k = 0" | "k = Suc 0" by linarith
  then show ?thesis
    by cases
      (auto simp: TaskService_create_def abort_defs prisma_task_create_def task_create_def
         split: sum.splits)
qed

lemma TaskService_update_abort:
  assumes "k \<le> 1"
  shows "isl (snd (TaskService_update ev (Some k) i data actorId d))"
proof -
  from assms consider "k = 0" | "k = Suc 0" by linarith
  then show ?thesis
    by cases
      (auto simp: TaskService_update_def abort_defs prisma_task_update_def task_update_def
         TaskRepository_findById_def Let_def split: sum.splits option.splits)
qed

lemma TaskService_delete_abort:
  assumes "k \<le> 1"
  shows "isl (snd (TaskService_delete (Some k) i actorId d))"
proof -
  from assms consider "k = 0" | "k = Suc 0" by linarith
  then show ?thesis
    by cases
      (auto simp: TaskService_delete_def abort_defs task_delete_def TaskRepository_findById_def
         split: option.splits)
qed

lemma ProjectService_create_abort:
  assumes "k \<le> 1"
  shows "isl (snd (ProjectService_create ev (Some k) pdata actorId d))"
proof -
  from assms consider "k = 0" | "k = Suc 0" by linarith
  then show ?thesis
    by cases (auto simp: ProjectService_create_def abort_defs project_create_def)
qed

lemma ProjectService_update_abort:
  assumes "k \<le> 1"
  shows "isl (snd (ProjectService_update (Some k) j udata actorId d))"
proof -
  from assms consider "k = 0" | "k = Suc 0" by linarith
  then show ?thesis
    by cases
      (auto simp: ProjectService_update_def abort_defs project_update_def
         ProjectRepository_findById_def Let_def split: option.splits)
qed

lemma ProjectService_delete_abort:
  assumes "k \<le> 1"
  shows "isl (snd (ProjectService_delete (Some k) j actorId d))"
proof -
  from assms consider "k = 0" | "k = Suc 0" by linarith
  then show ?thesis
    by cases
      (auto simp: ProjectService_delete_def abort_defs project_delete_def
         ProjectRepository_findById_def split: option.splits)
qed

lemma ProjectService_addMember_abort:
  assumes "k \<le> 1"
  shows "isl (snd (ProjectService_addMember ev (Some k) j u role actorId d))"
proof -
  from assms consider "k = 0" | "k = Suc 0" by linarith
  then show ?thesis
    by cases
      (auto simp: ProjectService_addMember_def abort_defs projectMember_create_include_user_def
         split: option.splits)
qed

lemma ProjectService_updateMemberRole_abort:
  assumes "k \<le> 1"
  shows "fst (ProjectService_updateMemberRole (Some k) j mid role actorId d) = d"
proof -
  from assms consider "k = 0" | "k = Suc 0" by linarith
  then show ?thesis
    by cases
      (auto simp: ProjectService_updateMemberRole_def abort_defs projectMember_update_def
         Let_def split: option.splits)
qed

lemma ProjectService_removeMember_abort:
  assumes "k \<le> 2"
  shows "isl (snd (ProjectService_removeMember (Some k) j mid actorId d))"
proof -
  from assms consider "k = 0" | "k = Suc 0" | "k = Suc (Suc 0)" by linarith
  then show ?thesis
    by cases
      (auto simp: ProjectService_removeMember_def abort_defs projectMember_delete_def
         split: option.splits)
qed

text \<open>
  Every write method of \<open>TaskService\<close> and \<open>ProjectService\<close> runs its entity write and
  its audit write in one transaction: wherever the store aborts (the fault \<open>flt\<close> is
  arbitrary), and whatever else makes the call fail, a failed call leaves the store as it
  was, so neither write is persisted. A successful call has committed its entity write
  together with the audit record the method writes: exactly one record for \<open>create\<close>,
  \<open>delete\<close>, \<open>addMember\<close> and \<open>removeMember\<close>; at most one for \<open>update\<close>; for
  \<open>updateMemberRole\<close> exactly one when the role changes, and nothing at all is written
  when it does not. The store aborting at the entity write, or after it at the audit write
  (or at the commit when no audit write is due), fails the call.
\<close>

theorem service_writes_atomic:
  fixes cdata :: "'a CreateTaskData_scheme"
  shows
  "(TaskService_create ev flt cdata actorId d = (d', Inl e) \<longrightarrow> d' = d) \<and>
   (TaskService_create ev flt cdata actorId d = (d', Inr t) \<longrightarrow>
      tasks d' = tasks d @ [t] \<and> audit_appended d d' ''Task'' (task_id t) CREATE actorId) \<and>
   (TaskService_update ev flt i data actorId d = (d', Inl e) \<longrightarrow> d' = d) \<and>
   (TaskService_update ev flt i data actorId d = (d', Inr t) \<longrightarrow>
      (u_id data = None \<longrightarrow> TaskRepository_findById d' i = Some t) \<and>
      (auditLogs d' = auditLogs d \<or> audit_appended d d' ''Task'' i UPDATE actorId)) \<and>
   (TaskService_delete flt i actorId d = (d', Inl e) \<longrightarrow> d' = d) \<and>
   (TaskService_delete flt i actorId d = (d', Inr r) \<longrightarrow>
      TaskRepository_findById d' i = None \<and> audit_appended d d' ''Task'' i DELETE actorId) \<and>
   (ProjectService_create ev flt pdata actorId d = (d', Inl e) \<longrightarrow> d' = d) \<and>
   (ProjectService_create ev flt pdata actorId d = (d', Inr pr) \<longrightarrow>
      projects d' = projects d @ [pr] \<and>
      audit_appended d d' ''Project'' (project_id pr) CREATE actorId) \<and>
   (ProjectService_update flt j udata actorId d = (d', Inl e) \<longrightarrow> d' = d) \<and>
   (ProjectService_update flt j udata actorId d = (d', Inr pr) \<longrightarrow>
      ProjectRepository_findById d' j = Some pr \<and>
      (auditLogs d' = auditLogs d \<or> audit_appended d d' ''Project'' j UPDATE actorId)) \<and>
   (ProjectService_delete flt j actorId d = (d', Inl e) \<longrightarrow> d' = d) \<and>
   (ProjectService_delete flt j actorId d = (d', Inr r) \<longrightarrow>
      ProjectRepository_findById d' j = None \<and>
      audit_appended d d' ''Project'' j DELETE actorId) \<and>
   (ProjectService_addMember ev flt j u role actorId d = (d', Inl e) \<longrightarrow> d' = d) \<and>
   (ProjectService_addMember ev flt j u role actorId d = (d', Inr mu) \<longrightarrow>
      projectMembers d' = projectMembers d @ [fst mu] \<and>
      audit_appended d d' ''Project'' j UPDATE actorId) \<and>
   (ProjectService_updateMemberRole flt j mid role actorId d = (d', Inl e) \<longrightarrow> d' = d) \<and>
   (ProjectService_updateMemberRole flt j mid role actorId d = (d', Inr m) \<longrightarrow>
      (\<exists>member. projectMember_findUnique d mid = Some member \<and>
         (if member_projectRole member = role then d' = d
          else member_projectRole m = role \<and> projectMember_findUnique d' mid = Some m \<and>
               audit_appended d d' ''Project'' j UPDATE actorId))) \<and>
   (ProjectService_removeMember flt j mid actorId d = (d', Inl e) \<longrightarrow> d' = d) \<and>
   (ProjectService_removeMember flt j mid actorId d = (d', Inr r) \<longrightarrow>
      projectMember_findUnique d' mid = None \<and>
      audit_appended d d' ''Project'' j UPDATE actorId) \<and>
   (n \<le> 1 \<longrightarrow>
      isl (snd (TaskService_create ev (Some n) cdata actorId d)) \<and>
      isl (snd (TaskService_update ev (Some n) i data actorId d)) \<and>
      isl (snd (TaskService_delete (Some n) i actorId d)) \<and>
      isl (snd (ProjectService_create ev (Some n) pdata actorId d)) \<and>
      isl (snd (ProjectService_update (Some n) j udata actorId d)) \<and>
      isl (snd (ProjectService_delete (Some n) j actorId d)) \<and>
      isl (snd (ProjectService_addMember ev (Some n) j u role actorId d)) \<and>
      fst (ProjectService_updateMemberRole (Some n) j mid role actorId d) = d) \<and>
   (n \<le> 2 \<longrightarrow> isl (snd (ProjectService_removeMember (Some n) j mid actorId d)))"
proof (intro conjI impI)
  show "isl (snd (TaskService_create ev (Some n) cdata actorId d))" if "n \<le> 1"
    using that by (rule TaskService_create_abort)
  show "isl (snd (TaskService_update ev (Some n) i data actorId d))" if "n \<le> 1"
    using that by (rule TaskService_update_abort)
  show "isl (snd (TaskService_delete (Some n) i actorId d))" if "n \<le> 1"
    using that by (rule TaskService_delete_abort)
  show "isl (snd (ProjectService_create ev (Some n) pdata actorId d))" if "n \<le> 1"
    using that by (rule ProjectService_create_abort)
  show "isl (snd (ProjectService_update (Some n) j udata actorId d))" if "n \<le> 1"
    using that by (rule ProjectService_update_abort)
  show "isl (snd (ProjectService_delete (Some n) j actorId d))" if "n \<le> 1"
    using that by (rule ProjectService_delete_abort)
  show "isl (snd (ProjectService_addMember ev (Some n) j u role actorId d))" if "n \<le> 1"
    using that by (rule ProjectService_addMember_abort)
  show "fst (ProjectService_updateMemberRole (Some n) j mid role actorId d) = d" if "n \<le> 1"
    using that by (rule ProjectService_updateMemberRole_abort)
  show "isl (snd (ProjectService_removeMember (Some n) j mid actorId d))" if "n \<le> 2"
    using that by (rule ProjectService_removeMember_abort)
  show "tasks d' = tasks d @ [t]" "audit_appended d d' ''Task'' (task_id t) CREATE actorId"
    if "TaskService_create ev flt cdata actorId d = (d', Inr t)"
    using TaskService_create_audit_appended [OF that] by simp_all
  show "TaskRepository_findById d' i = Some t"
    if "TaskService_update ev flt i data actorId d = (d', Inr t)" and "u_id data = None"
    using that by (rule TaskService_update_stored)
  show "auditLogs d' = auditLogs d \<or> audit_appended d d' ''Task'' i UPDATE actorId"
    if "TaskService_update ev flt i data actorId d = (d', Inr t)"
    using that by (rule TaskService_update_audit_appended)
  show "TaskRepository_findById d' i = None" "audit_appended d d' ''Task'' i DELETE actorId"
    if "TaskService_delete flt i actorId d = (d', Inr r)"
    using TaskService_delete_success [OF that] by simp_all
  show "projects d' = projects d @ [pr]"
    "audit_appended d d' ''Project'' (project_id pr) CREATE actorId"
    if "ProjectService_create ev flt pdata actorId d = (d', Inr pr)"
    using ProjectService_create_success [OF that] by simp_all
  show "ProjectRepository_findById d' j = Some pr"
    if "ProjectService_update flt j udata actorId d = (d', Inr pr)"
    using that by (rule ProjectService_update_stored)
  show "auditLogs d' = auditLogs d \<or> audit_appended d d' ''Project'' j UPDATE actorId"
    if "ProjectService_update flt j udata actorId d = (d', Inr pr)"
    using that by (rule ProjectService_update_audit)
  show "ProjectRepository_findById d' j = None"
    "audit_appended d d' ''Project'' j DELETE actorId"
    if "ProjectService_delete flt j actorId d = (d', Inr r)"
    using ProjectService_delete_success [OF that] by simp_all
  show "projectMembers d' = projectMembers d @ [fst mu]"
    "audit_appended d d' ''Project'' j UPDATE actorId"
    if "ProjectService_addMember ev flt j u role actorId d = (d', Inr mu)"
    using ProjectService_addMember_success [OF that] by simp_all
  show "\<exists>member. projectMember_findUnique d mid = Some member \<and>
         (if member_projectRole member = role then d' = d
          else member_projectRole m = role \<and> projectMember_findUnique d' mid = Some m \<and>
               audit_appended d d' ''Project'' j UPDATE actorId)"
    if "ProjectService_updateMemberRole flt j mid role actorId d = (d', Inr m)"
    using ProjectService_updateMemberRole_success [OF that] by auto
  show "projectMember_findUnique d' mid = None"
    "audit_appended d d' ''Project'' j UPDATE actorId"
    if "ProjectService_removeMember flt j mid actorId d = (d', Inr r)"
    using ProjectService_removeMember_success [OF that] by simp_all
qed (erule TaskService_create_error TaskService_update_error TaskService_delete_error
      ProjectService_create_error ProjectService_update_error ProjectService_delete_error
      ProjectService_addMember_error ProjectService_updateMemberRole_error
      ProjectService_removeMember_error)+

theorem service_writes_atomic_witness:
  "TaskService_update ex_env (Some 1) ''t1'' (no_patch\<lparr>u_status := Some DONE\<rparr>) ''um'' ex_db
     = (ex_db, Inl StoreAbort) \<and>
   TaskService_delete (Some 1) ''t1'' ''um'' ex_db = (ex_db, Inl StoreAbort) \<and>
   TaskService_delete (Some 2) ''t1'' ''um'' ex_db = (ex_db, Inl StoreAbort) \<and>
   snd (TaskService_delete None ''t1'' ''um'' ex_db) = Inr () \<and>
   TaskRepository_findById (fst (TaskService_delete None ''t1'' ''um'' ex_db)) ''t1'' = None \<and>
   audit_appended ex_db (fst (TaskService_delete None ''t1'' ''um'' ex_db))
     ''Task'' ''t1'' DELETE ''um''"
proof -
  have a1: "TaskService_update ex_env (Some 1) ''t1'' (no_patch\<lparr>u_status := Some DONE\<rparr>)
      ''um'' ex_db = (ex_db, Inl StoreAbort)"
    by (simp add: update_defs store_defs tx_defs ex_defs)
  have a2: "TaskService_delete (Some 1) ''t1'' ''um'' ex_db = (ex_db, Inl StoreAbort)"
    by (simp add: TaskService_delete_def store_defs tx_defs ex_defs)
  have a3: "TaskService_delete (Some 2) ''t1'' ''um'' ex_db = (ex_db, Inl StoreAbort)"
    by (simp add: TaskService_delete_def store_defs tx_defs ex_defs)
  obtain d' r where run: "TaskService_delete None ''t1'' ''um'' ex_db = (d', r)"
    by (cases "TaskService_delete None ''t1'' ''um'' ex_db")
  have r: "r = Inr ()"
    using run by (simp add: TaskService_delete_def store_defs tx_defs ex_defs)
  from service_writes_atomic [where flt = None and i = "''t1''" and actorId = "''um''"
      and d = ex_db and d' = d' and r = "()" and ev = ex_env
      and cdata = "\<lparr>c_title = ''Test'', c_description = None, c_priority = None,
        c_dueDate = None, c_projectId = ''p1'', c_assigneeId = None\<rparr>"]
  have "TaskService_delete None ''t1'' ''um'' ex_db = (d', Inr ()) \<longrightarrow>
      TaskRepository_findById d' ''t1'' = None \<and>
      audit_appended ex_db d' ''Task'' ''t1'' DELETE ''um''"
    by blast
  with run r a1 a2 a3 show ?thesis by simp
qed

text \<open>
  Claim C1 at a description that changes from \<open>null\<close> to the string \<open>null\<close>. Task
  \<open>t1\<close> has no description; the update with the patch \<open>{ description: 'null' }\<close>
  succeeds and commits the new description, and the audit log is as it was: the loop
  compares the text of the two values, and both render to \<open>null\<close>. The same change of a
  project's description, which \<open>ProjectService.update\<close> compares by value, is committed
  together with its audit record.
\<close>

theorem description_change_unaudited:
  "task_description ex_t1 = None \<and>
   TaskService_update ex_env None ''t1'' (no_patch\<lparr>u_description := Some (Some ''null'')\<rparr>)
     ''um'' ex_db
     = (ex_db\<lparr>tasks := [ex_t1\<lparr>task_description := Some ''null'', task_updatedAt := 9000\<rparr>,
                         ex_t2]\<rparr>,
        Inr (ex_t1\<lparr>task_description := Some ''null'', task_updatedAt := 9000\<rparr>)) \<and>
   task_description (ex_t1\<lparr>task_description := Some ''null'', task_updatedAt := 9000\<rparr>)
     \<noteq> task_description ex_t1 \<and>
   auditLogs (ex_db\<lparr>tasks := [ex_t1\<lparr>task_description := Some ''null'',
                                     task_updatedAt := 9000\<rparr>, ex_t2]\<rparr>)
     = auditLogs ex_db \<and>
   ProjectService_update None ''p1'' \<lparr>up_name = None, up_description = Some (Some ''null'')\<rparr>
     ''um'' ex_db
     = (ex_db\<lparr>projects := [\<lparr>project_id = ''p1'', project_name = ''Apollo'',
                             project_description = Some ''null''\<rparr>],
             auditLogs :=
               [\<lparr>audit_entityType = ''Project'', audit_entityId = ''p1'',
                 audit_action = UPDATE, audit_actorId = ''um'',
                 audit_details = [(''description'', JObject [(''old'', JNull),
                                                            (''new'', JString ''null'')])]\<rparr>]\<rparr>,
        Inr \<lparr>project_id = ''p1'', project_name = ''Apollo'',
             project_description = Some ''null''\<rparr>)"
  by (simp add: update_defs store_defs tx_defs ex_defs ProjectService_update_def
      project_diff_def prisma_project_data_def)

section \<open>Further properties\<close>

lemma prisma_accepts_updateData:
  "prisma_accepts ev data \<Longrightarrow> prisma_accepts ev (updateData ev current data)"
  by (simp add: prisma_accepts_def updateData_others updateData_completedAt date_accepted_def
      nullable_def)

text \<open>
  \<open>TaskService.update\<close> returns a task whenever the task exists, the patch carries no
  property beyond the six of \<open>UpdateTaskData\<close>, its assignee is absent or valid, the store
  can read the due date it carries, and the store does not abort.
\<close>

theorem task_update_succeeds:
  assumes "TaskRepository_findById d i = Some current"
    and "u_assigneeId data = None \<or>
         validateAssignee d (task_projectId current) (u_assigneeId data) = Inr ()"
    and "prisma_accepts ev data"
    and "declared_only data"
  shows "\<exists>d' task. TaskService_update ev None i data actorId d = (d', Inr task)"
  using assms(1,2) prisma_accepts_updateData [OF assms(3), of current]
  by (auto simp: TaskService_update_def TaskRepository_findById_def tx_defs task_update_def
      prisma_task_update_def AuditRepository_create_def auditLog_create_def Let_def)

theorem task_update_succeeds_witness:
  "TaskRepository_findById ex_db ''t1'' = Some ex_t1 \<and>
   u_assigneeId (no_patch\<lparr>u_title := Some ''Plan B''\<rparr>) = None \<and>
   prisma_accepts ex_env (no_patch\<lparr>u_title := Some ''Plan B''\<rparr>) \<and>
   declared_only (no_patch\<lparr>u_title := Some ''Plan B''\<rparr>) \<and>
   snd (TaskService_update ex_env None ''t1'' (no_patch\<lparr>u_title := Some ''Plan B''\<rparr>) ''um''
          ex_db) = Inr (ex_t1\<lparr>task_title := ''Plan B'', task_updatedAt := 9000\<rparr>)"
proof -
  have f: "TaskRepository_findById ex_db ''t1'' = Some ex_t1"
    by (simp add: store_defs ex_defs)
  have a: "u_assigneeId (no_patch\<lparr>u_title := Some ''Plan B''\<rparr>) = None \<or>
      validateAssignee ex_db (task_projectId ex_t1)
        (u_assigneeId (no_patch\<lparr>u_title := Some ''Plan B''\<rparr>)) = Inr ()"
    by (simp add: no_patch_def)
  have p: "prisma_accepts ex_env (no_patch\<lparr>u_title := Some ''Plan B''\<rparr>)"
    by (simp add: prisma_accepts_def date_accepted_def nullable_def no_patch_def)
  have dc: "declared_only (no_patch\<lparr>u_title := Some ''Plan B''\<rparr>)"
    by (simp add: declared_only_def no_patch_def)
  from task_update_succeeds [OF f a p dc, of "''um''"] obtain d' task where
    run: "TaskService_update ex_env None ''t1'' (no_patch\<lparr>u_title := Some ''Plan B''\<rparr>)
      ''um'' ex_db = (d', Inr task)"
    by blast
  from TaskService_update_success [OF run] f
  have "task = prisma_task_data ex_env
      (updateData ex_env ex_t1 (no_patch\<lparr>u_title := Some ''Plan B''\<rparr>)) ex_t1"
    by auto
  then have "task = ex_t1\<lparr>task_title := ''Plan B'', task_updatedAt := 9000\<rparr>"
    by (simp add: prisma_task_data_def updateData_def stored_date_def ex_defs)
  with run f p dc show ?thesis by (simp add: no_patch_def)
qed

text \<open>
  The ranges of the completion histogram: under 24 hours; 24 to 72 hours, both ends
  included; over 72 and up to 168 hours; over 168 hours.
\<close>

theorem range_of_bounds:
  "(range_of h = ''< 1 Day'' \<longleftrightarrow> h < 24) \<and>
   (range_of h = ''1-3 Days'' \<longleftrightarrow> 24 \<le> h \<and> h \<le> 72) \<and>
   (range_of h = ''3-7 Days'' \<longleftrightarrow> 72 < h \<and> h \<le> 168) \<and>
   (range_of h = ''> 7 Days'' \<longleftrightarrow> 168 < h)"
  by (auto simp: range_of_def)

end
